theory Spec2Isabelle
  imports Main "HOL-Library.Sublist"
begin

section \<open>The syntax tree\<close>

text \<open>
  The fragment of \<^verbatim>\<open>go/ast\<close> that the rewrite of \<^verbatim>\<open>main.go\<close> inspects, together with
  the node kinds of the repository's example benchmark. An identifier carries its name and
  its \<^verbatim>\<open>Obj\<close> pointer: \<open>None\<close> is the nil pointer of an unresolved identifier,
  \<open>Some k\<close> the object with identity \<open>k\<close>. A nil-able field is an \<open>option\<close>, a
  slice field a list. A \<^verbatim>\<open>Body\<close> field of type \<^verbatim>\<open>*ast.BlockStmt\<close> is given by
  the statement list of that block.
\<close>


datatype ident = MkIdent (Name: string) (Obj: "nat option")

datatype token = ADD | SUB | MUL | QUO | LSS | GTR | LEQ | GEQ | EQL | NEQ | LAND | LOR | AND | NOT
  | ASSIGN | DEFINE | ADD_ASSIGN | INC | DEC

datatype expr =
    Ident ident
  | BasicLit string
  | CompositeLit "expr option" "expr list"
  | ParenExpr expr
  | SelectorExpr expr ident
  | CallExpr expr "expr list"
  | UnaryExpr token expr
  | BinaryExpr expr token expr
  | ArrayType "expr option" expr

datatype stmt =
    ExprStmt expr
  | IncDecStmt expr token
  | AssignStmt "expr list" token "expr list"
  | ReturnStmt "expr list"
  | BlockStmt "stmt list"
  | IfStmt "stmt option" expr "stmt list" "stmt option"
  | ForStmt "stmt option" "expr option" "stmt option" "stmt list"
  | RangeStmt "expr option" "expr option" token expr "stmt list"

section \<open>The traversal of \<^verbatim>\<open>astutil.Apply\<close>\<close>

text \<open>
  \<^verbatim>\<open>removeReferencesToIdentifier\<close> hands two closures to \<^verbatim>\<open>astutil.Apply\<close>; they share
  the local variables \<^verbatim>\<open>depth\<close> and \<^verbatim>\<open>deleteMe\<close>, which become the state threaded
  through the traversal.
\<close>

record tstate =
  depth :: int
  deleteMe :: bool

text \<open>
  \<^verbatim>\<open>applyList\<close> walks a slice field from index 0. A \<^verbatim>\<open>Cursor.Delete\<close> in the
  callback shifts the tail of the slice left and takes the step back, so the walk goes on
  with the element that followed the deleted one: the callback answers \<open>None\<close> for
  a deleted element and \<open>Some x'\<close> for one that stays.
\<close>

fun applyList :: "(tstate \<Rightarrow> 'a \<Rightarrow> tstate \<times> 'a option) \<Rightarrow> tstate \<Rightarrow> 'a list \<Rightarrow> tstate \<times> 'a list" where
  "applyList f s [] = (s, [])"
| "applyList f s (x # xs) =
     (case f s x of
        (s1, None) \<Rightarrow> applyList f s1 xs
      | (s1, Some x') \<Rightarrow> (case applyList f s1 xs of (s2, xs') \<Rightarrow> (s2, x' # xs')))"

lemma applyList_cong [fundef_cong]:
  "xs = ys \<Longrightarrow> s = t \<Longrightarrow> (\<And>x u. x \<in> set ys \<Longrightarrow> f u x = g u x) \<Longrightarrow> applyList f s xs = applyList g t ys"
  by (induction ys arbitrary: xs s t) (auto split: prod.splits option.splits)

text \<open>
  The post-order closure (lines 353 to 361). \<open>inList\<close> is \<^verbatim>\<open>c.Index() >= 0\<close>: the
  cursor carries an index exactly when the node was reached through \<^verbatim>\<open>applyList\<close>.
\<close>

definition postVisit :: "bool \<Rightarrow> tstate \<Rightarrow> 'a \<Rightarrow> tstate \<times> 'a option" where
  "postVisit inList s n =
     (let s' = s\<lparr>depth := depth s - 1\<rparr>
      in if deleteMe s' \<and> inList then (s'\<lparr>deleteMe := False\<rparr>, None) else (s', Some n))"

text \<open>
  The \<^verbatim>\<open>*ast.CallExpr\<close> case of the pre-order closure (lines 324 to 334): the callee
  is a selector whose base is an identifier with \<^verbatim>\<open>ident.Obj == id.Obj\<close>.
\<close>

fun callRule :: "nat option \<Rightarrow> expr \<Rightarrow> bool" where
  "callRule h (CallExpr (SelectorExpr (Ident i) sel) args) = (Obj i = h)"
| "callRule h e = False"

text \<open>
  A node that matches no case of the switch and has no children (a nil field, an identifier
  in a \<^verbatim>\<open>Sel\<close> field): the pre-order closure counts \<^verbatim>\<open>depth\<close> up, the post-order
  closure counts it down, and \<^verbatim>\<open>c.Index()\<close> is negative.
\<close>

definition applyNil :: "tstate \<Rightarrow> tstate" where
  "applyNil s = (let s1 = s\<lparr>depth := depth s + 1\<rparr> in s1\<lparr>depth := depth s1 - 1\<rparr>)"

text \<open>
  \<^verbatim>\<open>apply\<close> on a field that may be nil: \<^verbatim>\<open>apply\<close> is called for the nil node too.
\<close>

fun applyOpt :: "(tstate \<Rightarrow> 'a \<Rightarrow> tstate \<times> 'a) \<Rightarrow> tstate \<Rightarrow> 'a option \<Rightarrow> tstate \<times> 'a option" where
  "applyOpt f s None = (applyNil s, None)"
| "applyOpt f s (Some x) = (case f s x of (s1, x') \<Rightarrow> (s1, Some x'))"

lemma applyOpt_cong [fundef_cong]:
  "x = y \<Longrightarrow> s = t \<Longrightarrow> (\<And>z u. z \<in> set_option y \<Longrightarrow> f u z = g u z) \<Longrightarrow> applyOpt f s x = applyOpt g t y"
  by (cases y) auto

text \<open>
  \<open>apply_expr\<close> is \<^verbatim>\<open>apply\<close> on an expression in a plain field, \<open>elem_expr\<close> the
  same on an element of a slice, \<open>walk_expr\<close> the walk over the children in the order of
  the struct fields. When the pre-order closure returns \<^verbatim>\<open>false\<close>, \<^verbatim>\<open>apply\<close> returns
  at once: no child is walked and the post-order closure is not called for the node.
\<close>

fun apply_expr :: "nat option \<Rightarrow> tstate \<Rightarrow> expr \<Rightarrow> tstate \<times> expr"
and elem_expr :: "nat option \<Rightarrow> tstate \<Rightarrow> expr \<Rightarrow> tstate \<times> expr option"
and walk_expr :: "nat option \<Rightarrow> tstate \<Rightarrow> expr \<Rightarrow> tstate \<times> expr" where
  "apply_expr h s e =
     (if callRule h e then (s\<lparr>deleteMe := True\<rparr>, e)
      else (case walk_expr h (s\<lparr>depth := depth s + 1\<rparr>) e of
              (s1, e') \<Rightarrow> (s1\<lparr>depth := depth s1 - 1\<rparr>, e')))"
| "elem_expr h s e =
     (if callRule h e then (s\<lparr>deleteMe := True\<rparr>, Some e)
      else (case walk_expr h (s\<lparr>depth := depth s + 1\<rparr>) e of
              (s1, e') \<Rightarrow> postVisit True s1 e'))"
| "walk_expr h s (Ident i) = (s, Ident i)"
| "walk_expr h s (BasicLit v) = (s, BasicLit v)"
| "walk_expr h s (CompositeLit t elts) =
     (case applyOpt (apply_expr h) s t of
        (s1, t') \<Rightarrow> (case applyList (elem_expr h) s1 elts of
                       (s2, elts') \<Rightarrow> (s2, CompositeLit t' elts')))"
| "walk_expr h s (ParenExpr x) = (case apply_expr h s x of (s1, x') \<Rightarrow> (s1, ParenExpr x'))"
| "walk_expr h s (SelectorExpr x sel) =
     (case apply_expr h s x of (s1, x') \<Rightarrow> (applyNil s1, SelectorExpr x' sel))"
| "walk_expr h s (CallExpr f args) =
     (case apply_expr h s f of
        (s1, f') \<Rightarrow> (case applyList (elem_expr h) s1 args of
                       (s2, args') \<Rightarrow> (s2, CallExpr f' args')))"
| "walk_expr h s (UnaryExpr op x) = (case apply_expr h s x of (s1, x') \<Rightarrow> (s1, UnaryExpr op x'))"
| "walk_expr h s (BinaryExpr x op y) =
     (case apply_expr h s x of
        (s1, x') \<Rightarrow> (case apply_expr h s1 y of (s2, y') \<Rightarrow> (s2, BinaryExpr x' op y')))"
| "walk_expr h s (ArrayType l elt) =
     (case applyOpt (apply_expr h) s l of
        (s1, l') \<Rightarrow> (case apply_expr h s1 elt of (s2, elt') \<Rightarrow> (s2, ArrayType l' elt')))"


text \<open>
  The \<^verbatim>\<open>*ast.ForStmt\<close> case of the pre-order closure (lines 335 to 348), as a test on
  \<^verbatim>\<open>v.Cond\<close>: the condition is a binary expression with operator \<^verbatim>\<open>token.LSS\<close> whose
  right operand is a selector based on an identifier with \<^verbatim>\<open>ident.Obj == id.Obj\<close>.
\<close>

fun forCond :: "nat option \<Rightarrow> expr option \<Rightarrow> bool" where
  "forCond h (Some (BinaryExpr x LSS (SelectorExpr (Ident i) sel))) = (Obj i = h)"
| "forCond h c = False"

text \<open>
  No statement is a call expression, so the pre-order closure returns \<^verbatim>\<open>true\<close> for every
  statement. On a matching \<^verbatim>\<open>for\<close> it first stores the pointer \<^verbatim>\<open>v.Body\<close> in the slot
  of the loop (\<^verbatim>\<open>c.Replace\<close>); the \<^verbatim>\<open>break\<close> leaves the \<^verbatim>\<open>switch\<close>, so the closure
  still returns \<^verbatim>\<open>true\<close> and \<^verbatim>\<open>apply\<close> walks the children of the loop it was called
  with. The slot and the loop share the body block, hence what is left in the slot is the
  block with the walked statement list.
\<close>

fun apply_stmt :: "nat option \<Rightarrow> tstate \<Rightarrow> stmt \<Rightarrow> tstate \<times> stmt"
and elem_stmt :: "nat option \<Rightarrow> tstate \<Rightarrow> stmt \<Rightarrow> tstate \<times> stmt option"
and apply_body :: "nat option \<Rightarrow> tstate \<Rightarrow> stmt list \<Rightarrow> tstate \<times> stmt list"
and walk_stmt :: "nat option \<Rightarrow> tstate \<Rightarrow> stmt \<Rightarrow> tstate \<times> stmt" where
  "apply_stmt h s st =
     (case walk_stmt h (s\<lparr>depth := depth s + 1\<rparr>) st of
        (s1, st') \<Rightarrow> (s1\<lparr>depth := depth s1 - 1\<rparr>, st'))"
| "elem_stmt h s st =
     (case walk_stmt h (s\<lparr>depth := depth s + 1\<rparr>) st of
        (s1, st') \<Rightarrow> postVisit True s1 st')"
| "apply_body h s ss =
     (case applyList (elem_stmt h) (s\<lparr>depth := depth s + 1\<rparr>) ss of
        (s1, ss') \<Rightarrow> (s1\<lparr>depth := depth s1 - 1\<rparr>, ss'))"
| "walk_stmt h s (ExprStmt x) = (case apply_expr h s x of (s1, x') \<Rightarrow> (s1, ExprStmt x'))"
| "walk_stmt h s (IncDecStmt x tok) =
     (case apply_expr h s x of (s1, x') \<Rightarrow> (s1, IncDecStmt x' tok))"
| "walk_stmt h s (AssignStmt lhs tok rhs) =
     (case applyList (elem_expr h) s lhs of
        (s1, lhs') \<Rightarrow> (case applyList (elem_expr h) s1 rhs of
                       (s2, rhs') \<Rightarrow> (s2, AssignStmt lhs' tok rhs')))"
| "walk_stmt h s (ReturnStmt results) =
     (case applyList (elem_expr h) s results of (s1, results') \<Rightarrow> (s1, ReturnStmt results'))"
| "walk_stmt h s (BlockStmt ss) =
     (case applyList (elem_stmt h) s ss of (s1, ss') \<Rightarrow> (s1, BlockStmt ss'))"
| "walk_stmt h s (IfStmt init cond body els) =
     (case applyOpt (apply_stmt h) s init of
        (s1, init') \<Rightarrow>
     (case apply_expr h s1 cond of
        (s2, cond') \<Rightarrow>
     (case apply_body h s2 body of
        (s3, body') \<Rightarrow>
     (case applyOpt (apply_stmt h) s3 els of
        (s4, els') \<Rightarrow> (s4, IfStmt init' cond' body' els')))))"
| "walk_stmt h s (ForStmt init cond post body) =
     (case applyOpt (apply_stmt h) s init of
        (s1, init') \<Rightarrow>
     (case applyOpt (apply_expr h) s1 cond of
        (s2, cond') \<Rightarrow>
     (case applyOpt (apply_stmt h) s2 post of
        (s3, post') \<Rightarrow>
     (case apply_body h s3 body of
        (s4, body') \<Rightarrow>
          (s4, if forCond h cond then BlockStmt body'
               else ForStmt init' cond' post' body')))))"
| "walk_stmt h s (RangeStmt key val tok x body) =
     (case applyOpt (apply_expr h) s key of
        (s1, key') \<Rightarrow>
     (case applyOpt (apply_expr h) s1 val of
        (s2, val') \<Rightarrow>
     (case apply_expr h s2 x of
        (s3, x') \<Rightarrow>
     (case apply_body h s3 body of
        (s4, body') \<Rightarrow> (s4, RangeStmt key' val' tok x' body')))))"

lemmas apply_defs =
  apply_expr.simps elem_expr.simps apply_stmt.simps elem_stmt.simps apply_body.simps

declare apply_defs [simp del]

text \<open>
  \<^verbatim>\<open>removeReferencesToIdentifier\<close> (lines 309 to 362). The root is the body block of the
  declaration; it sits in the field of \<^verbatim>\<open>Apply\<close>'s own parent node, outside any slice.
  \<open>traverse\<close> also returns the closures' variables as they stand when \<^verbatim>\<open>Apply\<close>
  returns. \<open>h\<close> is \<^verbatim>\<open>id.Obj\<close>.
\<close>

definition traverse :: "nat option \<Rightarrow> stmt list \<Rightarrow> tstate \<times> stmt list" where
  "traverse h body = apply_body h \<lparr>depth = 0, deleteMe = False\<rparr> body"

definition removeReferencesToIdentifier :: "nat option \<Rightarrow> stmt list \<Rightarrow> stmt list" where
  "removeReferencesToIdentifier h body = snd (traverse h body)"

section \<open>The scenarios of the specification\<close>

text \<open>
  The statement \<^verbatim>\<open>h.m()\<close> for a harness parameter \<open>h\<close> whose object is \<open>k\<close>, and
  the statement \<^verbatim>\<open>f()\<close> for a plain function name with \<^verbatim>\<open>Obj\<close> pointer \<open>c\<close>.
\<close>

definition harnessCallStmt :: "nat \<Rightarrow> string \<Rightarrow> stmt" where
  "harnessCallStmt k m =
     ExprStmt (CallExpr (SelectorExpr (Ident (MkIdent ''h'' (Some k))) (MkIdent m None)) [])"

definition plainCallStmt :: "string \<Rightarrow> nat option \<Rightarrow> stmt" where
  "plainCallStmt f c = ExprStmt (CallExpr (Ident (MkIdent f c)) [])"

section \<open>Occurrences of the harness parameter\<close>

text \<open>
  An occurrence of the harness parameter is an identifier whose \<^verbatim>\<open>Obj\<close> pointer is
  \<^verbatim>\<open>id.Obj\<close>, wherever it stands in the tree. \<open>refs_expr\<close>, \<open>refs_stmt\<close> and
  \<open>refs_body\<close> say that an expression, a statement, a body holds at least one.
\<close>

fun refs_expr :: "nat option \<Rightarrow> expr \<Rightarrow> bool" where
  "refs_expr h (Ident i) = (Obj i = h)"
| "refs_expr h (BasicLit v) = False"
| "refs_expr h (CompositeLit t elts) =
     ((case t of None \<Rightarrow> False | Some te \<Rightarrow> refs_expr h te) \<or> (\<exists>e \<in> set elts. refs_expr h e))"
| "refs_expr h (ParenExpr x) = refs_expr h x"
| "refs_expr h (SelectorExpr x sel) = (refs_expr h x \<or> Obj sel = h)"
| "refs_expr h (CallExpr f args) = (refs_expr h f \<or> (\<exists>e \<in> set args. refs_expr h e))"
| "refs_expr h (UnaryExpr op x) = refs_expr h x"
| "refs_expr h (BinaryExpr x op y) = (refs_expr h x \<or> refs_expr h y)"
| "refs_expr h (ArrayType l elt) =
     ((case l of None \<Rightarrow> False | Some le \<Rightarrow> refs_expr h le) \<or> refs_expr h elt)"

fun refs_stmt :: "nat option \<Rightarrow> stmt \<Rightarrow> bool" where
  "refs_stmt h (ExprStmt x) = refs_expr h x"
| "refs_stmt h (IncDecStmt x tok) = refs_expr h x"
| "refs_stmt h (AssignStmt lhs tok rhs) =
     ((\<exists>e \<in> set lhs. refs_expr h e) \<or> (\<exists>e \<in> set rhs. refs_expr h e))"
| "refs_stmt h (ReturnStmt results) = (\<exists>e \<in> set results. refs_expr h e)"
| "refs_stmt h (BlockStmt ss) = (\<exists>st \<in> set ss. refs_stmt h st)"
| "refs_stmt h (IfStmt init cond body els) =
     ((case init of None \<Rightarrow> False | Some i \<Rightarrow> refs_stmt h i) \<or> refs_expr h cond
      \<or> (\<exists>st \<in> set body. refs_stmt h st)
      \<or> (case els of None \<Rightarrow> False | Some e \<Rightarrow> refs_stmt h e))"
| "refs_stmt h (ForStmt init cond post body) =
     ((case init of None \<Rightarrow> False | Some i \<Rightarrow> refs_stmt h i)
      \<or> (case cond of None \<Rightarrow> False | Some c \<Rightarrow> refs_expr h c)
      \<or> (case post of None \<Rightarrow> False | Some p \<Rightarrow> refs_stmt h p)
      \<or> (\<exists>st \<in> set body. refs_stmt h st))"
| "refs_stmt h (RangeStmt key val tok x body) =
     ((case key of None \<Rightarrow> False | Some k \<Rightarrow> refs_expr h k)
      \<or> (case val of None \<Rightarrow> False | Some v \<Rightarrow> refs_expr h v)
      \<or> refs_expr h x \<or> (\<exists>st \<in> set body. refs_stmt h st))"

definition refs_body :: "nat option \<Rightarrow> stmt list \<Rightarrow> bool" where
  "refs_body h body = (\<exists>st \<in> set body. refs_stmt h st)"

section \<open>Bodies that the two rules clear\<close>

text \<open>
  \<open>hcallStmt\<close>: an expression statement whose expression is a call that the call rule
  matches (\<^verbatim>\<open>h.m(...)\<close> as a statement of its own). \<open>bound_ok\<close>: a loop condition
  that the loop rule matches and whose left operand holds no occurrence, or a condition
  without any occurrence. \<open>clean_stmt\<close>: a statement in which the harness parameter
  occurs only inside such call statements standing directly in a statement list and in
  such loop bounds. \<open>removable_body\<close>: a body made of such call statements and clean
  statements.
\<close>

fun hcallStmt :: "nat option \<Rightarrow> stmt \<Rightarrow> bool" where
  "hcallStmt h (ExprStmt e) = callRule h e"
| "hcallStmt h st = False"

fun leftOperand :: "expr option \<Rightarrow> expr option" where
  "leftOperand (Some (BinaryExpr x op y)) = Some x"
| "leftOperand c = None"

definition bound_ok :: "nat option \<Rightarrow> expr option \<Rightarrow> bool" where
  "bound_ok h cond =
     (if forCond h cond then (\<forall>x \<in> set_option (leftOperand cond). \<not> refs_expr h x)
      else (\<forall>c \<in> set_option cond. \<not> refs_expr h c))"

fun clean_stmt :: "nat option \<Rightarrow> stmt \<Rightarrow> bool" where
  "clean_stmt h (ExprStmt x) = (\<not> refs_expr h x)"
| "clean_stmt h (IncDecStmt x tok) = (\<not> refs_expr h x)"
| "clean_stmt h (AssignStmt lhs tok rhs) =
     ((\<forall>e \<in> set lhs. \<not> refs_expr h e) \<and> (\<forall>e \<in> set rhs. \<not> refs_expr h e))"
| "clean_stmt h (ReturnStmt results) = (\<forall>e \<in> set results. \<not> refs_expr h e)"
| "clean_stmt h (BlockStmt ss) = (\<forall>st \<in> set ss. hcallStmt h st \<or> clean_stmt h st)"
| "clean_stmt h (IfStmt init cond body els) =
     ((\<forall>i \<in> set_option init. clean_stmt h i) \<and> \<not> refs_expr h cond
      \<and> (\<forall>st \<in> set body. hcallStmt h st \<or> clean_stmt h st)
      \<and> (\<forall>e \<in> set_option els. clean_stmt h e))"
| "clean_stmt h (ForStmt init cond post body) =
     ((\<forall>i \<in> set_option init. clean_stmt h i) \<and> bound_ok h cond
      \<and> (\<forall>p \<in> set_option post. clean_stmt h p)
      \<and> (\<forall>st \<in> set body. hcallStmt h st \<or> clean_stmt h st))"
| "clean_stmt h (RangeStmt key val tok x body) =
     ((\<forall>k \<in> set_option key. \<not> refs_expr h k) \<and> (\<forall>v \<in> set_option val. \<not> refs_expr h v)
      \<and> \<not> refs_expr h x \<and> (\<forall>st \<in> set body. hcallStmt h st \<or> clean_stmt h st))"

definition removable_body :: "nat option \<Rightarrow> stmt list \<Rightarrow> bool" where
  "removable_body h body = (\<forall>st \<in> set body. hcallStmt h st \<or> clean_stmt h st)"

text \<open>
  More pieces of concrete bodies: the selector \<^verbatim>\<open>h.m\<close>, a resolved variable, and the
  loop \<^verbatim>\<open>for i := 0; i < h.N; i++ { body }\<close>.
\<close>

definition harnessSel :: "nat \<Rightarrow> string \<Rightarrow> expr" where
  "harnessSel k m = SelectorExpr (Ident (MkIdent ''h'' (Some k))) (MkIdent m None)"

definition var :: "string \<Rightarrow> nat \<Rightarrow> expr" where
  "var x k = Ident (MkIdent x (Some k))"

definition loopOverN :: "nat \<Rightarrow> stmt list \<Rightarrow> stmt" where
  "loopOverN k body =
     ForStmt (Some (AssignStmt [var ''i'' (Suc k)] DEFINE [BasicLit ''0'']))
             (Some (BinaryExpr (var ''i'' (Suc k)) LSS (harnessSel k ''N'')))
             (Some (IncDecStmt (var ''i'' (Suc k)) INC))
             body"

section \<open>The positions the specification allows\<close>

text \<open>
  The condition the specification puts on a body: every occurrence of the harness parameter
  is the base of the selector that is the callee of a call, or the base of the selector that
  is the right operand of the \<^verbatim>\<open><\<close> condition of a \<^verbatim>\<open>for\<close> statement. The fragment has
  no function literal; a bare occurrence, as in \<^verbatim>\<open>&h\<close> or \<^verbatim>\<open>x := h\<close>, is not allowed.
\<close>

fun allowed_expr :: "nat option \<Rightarrow> expr \<Rightarrow> bool" where
  "allowed_expr h (Ident i) = (Obj i \<noteq> h)"
| "allowed_expr h (BasicLit v) = True"
| "allowed_expr h (CompositeLit t elts) =
     ((\<forall>te \<in> set_option t. allowed_expr h te) \<and> (\<forall>e \<in> set elts. allowed_expr h e))"
| "allowed_expr h (ParenExpr x) = allowed_expr h x"
| "allowed_expr h (SelectorExpr x sel) = (allowed_expr h x \<and> Obj sel \<noteq> h)"
| "allowed_expr h (CallExpr f args) =
     ((callRule h (CallExpr f args) \<or> allowed_expr h f) \<and> (\<forall>e \<in> set args. allowed_expr h e))"
| "allowed_expr h (UnaryExpr op x) = allowed_expr h x"
| "allowed_expr h (BinaryExpr x op y) = (allowed_expr h x \<and> allowed_expr h y)"
| "allowed_expr h (ArrayType l elt) =
     ((\<forall>le \<in> set_option l. allowed_expr h le) \<and> allowed_expr h elt)"

definition allowed_cond :: "nat option \<Rightarrow> expr option \<Rightarrow> bool" where
  "allowed_cond h cond =
     (if forCond h cond then (\<forall>x \<in> set_option (leftOperand cond). allowed_expr h x)
      else (\<forall>c \<in> set_option cond. allowed_expr h c))"

fun allowed_stmt :: "nat option \<Rightarrow> stmt \<Rightarrow> bool" where
  "allowed_stmt h (ExprStmt x) = allowed_expr h x"
| "allowed_stmt h (IncDecStmt x tok) = allowed_expr h x"
| "allowed_stmt h (AssignStmt lhs tok rhs) =
     ((\<forall>e \<in> set lhs. allowed_expr h e) \<and> (\<forall>e \<in> set rhs. allowed_expr h e))"
| "allowed_stmt h (ReturnStmt results) = (\<forall>e \<in> set results. allowed_expr h e)"
| "allowed_stmt h (BlockStmt ss) = (\<forall>st \<in> set ss. allowed_stmt h st)"
| "allowed_stmt h (IfStmt init cond body els) =
     ((\<forall>i \<in> set_option init. allowed_stmt h i) \<and> allowed_expr h cond
      \<and> (\<forall>st \<in> set body. allowed_stmt h st) \<and> (\<forall>e \<in> set_option els. allowed_stmt h e))"
| "allowed_stmt h (ForStmt init cond post body) =
     ((\<forall>i \<in> set_option init. allowed_stmt h i) \<and> allowed_cond h cond
      \<and> (\<forall>p \<in> set_option post. allowed_stmt h p) \<and> (\<forall>st \<in> set body. allowed_stmt h st))"
| "allowed_stmt h (RangeStmt key val tok x body) =
     ((\<forall>k \<in> set_option key. allowed_expr h k) \<and> (\<forall>v \<in> set_option val. allowed_expr h v)
      \<and> allowed_expr h x \<and> (\<forall>st \<in> set body. allowed_stmt h st))"

definition allowed_body :: "nat option \<Rightarrow> stmt list \<Rightarrow> bool" where
  "allowed_body h body = list_all (allowed_stmt h) body"

section \<open>The walk of a loop's header\<close>


section \<open>Declarations and the declaration editor\<close>

text \<open>
  \<^verbatim>\<open>ast.Field\<close> with the names it declares and its type; \<^verbatim>\<open>ast.FuncDecl\<close> with the
  comment texts of its \<^verbatim>\<open>Doc\<close> group (\<open>None\<close> is the nil group), its name, the list
  \<^verbatim>\<open>Type.Params.List\<close> and its body (\<open>None\<close> for a declaration without body). Any other
  declaration of a file is a \<open>GenDecl\<close>. The program parses with mode 0, without
  \<^verbatim>\<open>parser.ParseComments\<close>, so \<^verbatim>\<open>Doc\<close> is nil in every declaration it reads.
\<close>

record field =
  Names :: "ident list"
  Type :: expr

record funcDecl =
  Doc :: "string list option"
  FuncName :: string
  Params :: "field list"
  Body :: "stmt list option"

datatype decl = FuncDecl funcDecl | GenDecl string

text \<open>
  \<^verbatim>\<open>die\<close> prints a message and calls \<^verbatim>\<open>os.Exit(1)\<close>; there is one constructor for each
  call of \<^verbatim>\<open>die\<close> and \<^verbatim>\<open>dieUsage\<close>, with the arguments of the message. A Go
  \<^verbatim>\<open>error\<close> value is its text.
\<close>

type_synonym error = string

datatype fatal =
    NoCwd error
  | MissingP
  | MissingN
  | ImportFailed string error
  | NoMatch string
  | Ambiguous string nat
  | TempDirFailed error
  | OrigDirFailed string error
  | CopyFailed string string error
  | RelFailed string string
  | RewriteFailed error
  | RenameFailed error
  | InitFailed error
  | TidyFailed error
  | CompileFailed error
  | BadShape string nat
  | OpenForWriteFailed string
  | FormatFailed error
  | RenderOpenFailed string

datatype 'a result = Ok 'a | Die fatal | Panic string

text \<open>
  \<^verbatim>\<open>(*ast.FieldList).NumFields\<close>: a field without names counts once, any other field once
  for each name.
\<close>

fun NumFields :: "field list \<Rightarrow> nat" where
  "NumFields [] = 0"
| "NumFields (g # gs) = (if Names g = [] then 1 else length (Names g)) + NumFields gs"

text \<open>
  Lines 256 to 274 of \<^verbatim>\<open>rewriteBenchFuncInPlace\<close>, the edit of the declaration found.
  \<^verbatim>\<open>d.Type.Params.List[0].Names[0]\<close> panics on an index out of range.
\<close>

definition rewriteDecl :: "funcDecl \<Rightarrow> funcDecl result" where
  "rewriteDecl d =
     (if NumFields (Params d) \<noteq> 1 then Die (BadShape (FuncName d) (NumFields (Params d)))
      else (case Params d of
              [] \<Rightarrow> Panic ''index out of range''
            | g # gs \<Rightarrow>
               (case Names g of
                  [] \<Rightarrow> Panic ''index out of range''
                | testingBIdent # ns \<Rightarrow>
                    Ok (d\<lparr>Params := [],
                          Body := map_option (removeReferencesToIdentifier (Obj testingBIdent)) (Body d),
                          Doc := Some ((case Doc d of None \<Rightarrow> [] | Some cs \<Rightarrow> cs)
                                       @ [''//go:noinline''])\<rparr>))))"

section \<open>The environment of a run\<close>

text \<open>
  What the program asks of the operating system and of the Go libraries is a parameter:
  the flags, the outcome of each call that can fail (\<open>Inl\<close> or \<open>Some\<close> holds the error),
  and the pure path functions of package \<^verbatim>\<open>path\<close>. \<open>MustCompile\<close> gives the predicate
  \<^verbatim>\<open>MatchString\<close> of the compiled expression, or \<open>None\<close> where \<^verbatim>\<open>regexp.MustCompile\<close>
  panics. \<open>ParseFile\<close> gives the declarations of the file. \<open>formatNode\<close> is
  \<^verbatim>\<open>format.Node\<close>, which writes the file, returns an error, or panics on a tree that the
  printer cannot handle. Writes to standard output are left out. The fields \<^verbatim>\<open>file\<close> and \<^verbatim>\<open>name\<close> of \<^verbatim>\<open>fnLoc\<close> are \<open>locFile\<close> and
  \<open>locName\<close>.
\<close>

datatype formatted = Written | FormatError error | FormatPanic string

record package =
  Dir :: string
  TestGoFiles :: "string list"
  XTestGoFiles :: "string list"

record dirEntry =
  EntryName :: string
  IsDir :: bool

record fnLoc =
  locFile :: string
  locName :: string

record templateContext =
  OrigImport :: string
  Func :: string

record env =
  Getwd :: "error + string"
  pathFlag :: string
  nameFlag :: string
  noSrcCleanupFlag :: bool
  binaryPathFlag :: string
  pathJoin :: "string \<Rightarrow> string \<Rightarrow> string"
  pathIsAbs :: "string \<Rightarrow> bool"
  pathBase :: "string \<Rightarrow> string"
  filepathRel :: "string \<Rightarrow> string \<Rightarrow> error + string"
  MustCompile :: "string \<Rightarrow> (string \<Rightarrow> bool) option"
  Import :: "string \<Rightarrow> string \<Rightarrow> error + package"
  ParseFile :: "string \<Rightarrow> error + decl list"
  MkdirTemp :: "error + string"
  Mkdir :: "string \<Rightarrow> error option"
  ReadDir :: "string \<Rightarrow> error + dirEntry list"
  Open :: "string \<Rightarrow> error option"
  Create :: "string \<Rightarrow> error option"
  Copy :: "string \<Rightarrow> string \<Rightarrow> error option"
  OpenFile :: "string \<Rightarrow> error option"
  formatNode :: "decl list \<Rightarrow> formatted"
  Rename :: "string \<Rightarrow> string \<Rightarrow> error option"
  cmdOutput :: "string \<Rightarrow> string list \<Rightarrow> error option"

text \<open>
  The effects on the file system, in the order in which the run performs them.
\<close>

datatype event =
    EvMkdirTemp string
  | EvMkdir string
  | EvCreate string
  | EvCopy string string
  | EvTruncate string
  | EvWrite string "decl list"
  | EvRename string string
  | EvRender string templateContext
  | EvRunGo string "string list"
  | EvRemove string

section \<open>Library functions on strings\<close>

definition HasPrefix :: "string \<Rightarrow> string \<Rightarrow> bool" where
  "HasPrefix s p = prefix p s"

definition HasSuffix :: "string \<Rightarrow> string \<Rightarrow> bool" where
  "HasSuffix s p = suffix p s"

text \<open>
  \<^verbatim>\<open>strings.Replace(s, old, new, n)\<close> for a non-empty \<open>old\<close> and \<open>n \<ge> 0\<close>: the first
  \<open>n\<close> occurrences of \<open>old\<close>, found from the left without overlap, are replaced.
\<close>

fun Replace :: "string \<Rightarrow> string \<Rightarrow> string \<Rightarrow> nat \<Rightarrow> string" where
  "Replace [] old new n = []"
| "Replace (c # cs) old new n =
     (if n = 0 \<or> old = [] then c # cs
      else if prefix old (c # cs) then new @ Replace (drop (length old) (c # cs)) old new (n - 1)
      else c # Replace cs old new n)"

section \<open>Selection\<close>

text \<open>
  \<^verbatim>\<open>findBenchmarkFuncs\<close> (lines 403 to 431). A file that does not parse is skipped.
\<close>

fun matchingFuncs :: "(string \<Rightarrow> bool) \<Rightarrow> string \<Rightarrow> decl list \<Rightarrow> fnLoc list" where
  "matchingFuncs nameRegex fl [] = []"
| "matchingFuncs nameRegex fl (GenDecl g # ds) = matchingFuncs nameRegex fl ds"
| "matchingFuncs nameRegex fl (FuncDecl fd # ds) =
     (if \<not> HasPrefix (FuncName fd) ''Benchmark'' \<or> \<not> nameRegex (FuncName fd)
      then matchingFuncs nameRegex fl ds
      else \<lparr>locFile = fl, locName = FuncName fd\<rparr> # matchingFuncs nameRegex fl ds)"

fun findInFiles :: "env \<Rightarrow> package \<Rightarrow> (string \<Rightarrow> bool) \<Rightarrow> string list \<Rightarrow> fnLoc list" where
  "findInFiles e pkg nameRegex [] = []"
| "findInFiles e pkg nameRegex (fl # fls) =
     (case ParseFile e (pathJoin e (Dir pkg) fl) of
        Inl err \<Rightarrow> findInFiles e pkg nameRegex fls
      | Inr decls \<Rightarrow> matchingFuncs nameRegex fl decls @ findInFiles e pkg nameRegex fls)"

definition findBenchmarkFuncs :: "env \<Rightarrow> package \<Rightarrow> (string \<Rightarrow> bool) \<Rightarrow> fnLoc list" where
  "findBenchmarkFuncs e pkg nameRegex =
     findInFiles e pkg nameRegex (TestGoFiles pkg @ XTestGoFiles pkg)"

section \<open>The scratch workspace\<close>

text \<open>
  \<^verbatim>\<open>copyFile\<close> (lines 386 to 401) and \<^verbatim>\<open>copyModuleToTmp\<close> (lines 364 to 384). Each takes
  the effects so far and returns the error it returns in Go together with the effects.
\<close>

definition copyFile :: "env \<Rightarrow> string \<Rightarrow> string \<Rightarrow> event list \<Rightarrow> error option \<times> event list" where
  "copyFile e fromPath toPath lg =
     (case Open e fromPath of
        Some err \<Rightarrow> (Some err, lg)
      | None \<Rightarrow>
         (case Create e toPath of
            Some err \<Rightarrow> (Some err, lg)
          | None \<Rightarrow> (Copy e fromPath toPath, lg @ [EvCreate toPath, EvCopy fromPath toPath])))"

fun copyEntries :: "env \<Rightarrow> string \<Rightarrow> string \<Rightarrow> dirEntry list \<Rightarrow> event list \<Rightarrow> error option \<times> event list" where
  "copyEntries e fromPath toPath [] lg = (None, lg)"
| "copyEntries e fromPath toPath (x # xs) lg =
     (if IsDir x \<or> \<not> HasSuffix (EntryName x) ''.go'' then copyEntries e fromPath toPath xs lg
      else (case copyFile e (pathJoin e fromPath (EntryName x)) (pathJoin e toPath (EntryName x)) lg of
              (Some err, lg') \<Rightarrow>
                (Some (''error copying '' @ pathJoin e fromPath (EntryName x) @ '' to ''
                       @ pathJoin e toPath (EntryName x) @ '': '' @ err), lg')
            | (None, lg') \<Rightarrow> copyEntries e fromPath toPath xs lg'))"

definition copyModuleToTmp :: "env \<Rightarrow> string \<Rightarrow> string \<Rightarrow> event list \<Rightarrow> error option \<times> event list" where
  "copyModuleToTmp e fromPath toPath lg =
     (case ReadDir e fromPath of
        Inl err \<Rightarrow> (Some err, lg)
      | Inr files \<Rightarrow> copyEntries e fromPath toPath files lg)"

text \<open>
  \<^verbatim>\<open>renameTestFiles\<close> (lines 169 to 188).
\<close>

fun renameEntries :: "env \<Rightarrow> string \<Rightarrow> dirEntry list \<Rightarrow> event list \<Rightarrow> error option \<times> event list" where
  "renameEntries e p [] lg = (None, lg)"
| "renameEntries e p (x # xs) lg =
     (if IsDir x \<or> \<not> HasSuffix (EntryName x) ''_test.go'' then renameEntries e p xs lg
      else (let newName = Replace (EntryName x) ''_test.go'' ''_bborig.go'' 1;
                fromFilePath = pathJoin e p (EntryName x);
                toFilePath = pathJoin e p newName
            in case Rename e fromFilePath toFilePath of
                 Some err \<Rightarrow>
                   (Some (''renaming '' @ fromFilePath @ '' to '' @ toFilePath @ '': '' @ err), lg)
               | None \<Rightarrow> renameEntries e p xs (lg @ [EvRename fromFilePath toFilePath])))"

definition renameTestFiles :: "env \<Rightarrow> string \<Rightarrow> event list \<Rightarrow> error option \<times> event list" where
  "renameTestFiles e p lg =
     (case ReadDir e p of
        Inl err \<Rightarrow> (Some err, lg)
      | Inr files \<Rightarrow> renameEntries e p files lg)"

section \<open>Rewriting the copied file\<close>

text \<open>
  The loop of lines 241 to 250 finds the first function declaration with the name looked
  for; the edit goes through the pointer to it, so the file's declaration list holds the
  edited declaration at the same place.
\<close>

fun findDecl :: "string \<Rightarrow> decl list \<Rightarrow> funcDecl option" where
  "findDecl nm [] = None"
| "findDecl nm (GenDecl g # ds) = findDecl nm ds"
| "findDecl nm (FuncDecl fd # ds) = (if FuncName fd = nm then Some fd else findDecl nm ds)"

fun storeDecl :: "string \<Rightarrow> funcDecl \<Rightarrow> decl list \<Rightarrow> decl list" where
  "storeDecl nm d' [] = []"
| "storeDecl nm d' (GenDecl g # ds) = GenDecl g # storeDecl nm d' ds"
| "storeDecl nm d' (FuncDecl fd # ds) =
     (if FuncName fd = nm then FuncDecl d' # ds else FuncDecl fd # storeDecl nm d' ds)"

text \<open>
  \<^verbatim>\<open>rewriteBenchFuncInPlace\<close> (lines 230 to 288): \<open>Ok r\<close> when the function returns
  the error \<open>r\<close>, \<open>Die\<close> and \<open>Panic\<close> when it ends the process. Opening the file with
  \<^verbatim>\<open>O_TRUNC\<close> empties it before \<^verbatim>\<open>format.Node\<close> writes; when \<^verbatim>\<open>format.Node\<close> fails
  or panics the file stays truncated.
\<close>

definition rewriteBenchFuncInPlace ::
  "env \<Rightarrow> string \<Rightarrow> fnLoc \<Rightarrow> event list \<Rightarrow> error option result \<times> event list" where
  "rewriteBenchFuncInPlace e pkgDir loc lg =
     (let filePath = pathJoin e pkgDir (locFile loc)
      in case ParseFile e filePath of
           Inl err \<Rightarrow> (Ok (Some err), lg)
         | Inr decls \<Rightarrow>
            (case findDecl (locName loc) decls of
               None \<Rightarrow>
                 (Panic ''could not find benchmark declaration after the files have been copied'', lg)
             | Some d \<Rightarrow>
                (case rewriteDecl d of
                   Die f \<Rightarrow> (Die f, lg)
                 | Panic m \<Rightarrow> (Panic m, lg)
                 | Ok d' \<Rightarrow>
                    (case OpenFile e filePath of
                       Some err \<Rightarrow> (Die (OpenForWriteFailed filePath), lg)
                     | None \<Rightarrow>
                        (case formatNode e (storeDecl (locName loc) d' decls) of
                           FormatPanic m \<Rightarrow> (Panic m, lg @ [EvTruncate filePath])
                         | FormatError err \<Rightarrow>
                             (Die (FormatFailed err), lg @ [EvTruncate filePath])
                         | Written \<Rightarrow>
                             (Ok None,
                              lg @ [EvTruncate filePath,
                                    EvWrite filePath (storeDecl (locName loc) d' decls)]))))))"

section \<open>The run\<close>

text \<open>
  \<^verbatim>\<open>runGo\<close> (lines 190 to 199) and \<^verbatim>\<open>renderMainToFile\<close> (lines 201 to 210).
\<close>

definition runGo :: "env \<Rightarrow> string \<Rightarrow> string list \<Rightarrow> event list \<Rightarrow> error option \<times> event list" where
  "runGo e dir args lg = (cmdOutput e dir args, lg @ [EvRunGo dir args])"

definition renderMainToFile ::
  "env \<Rightarrow> templateContext \<Rightarrow> string \<Rightarrow> event list \<Rightarrow> unit result \<times> event list" where
  "renderMainToFile e data filePath lg =
     (case OpenFile e filePath of
        Some err \<Rightarrow> (Die (RenderOpenFailed filePath), lg)
      | None \<Rightarrow> (Ok (), lg @ [EvRender filePath data]))"

text \<open>
  The deferred \<^verbatim>\<open>os.Remove(tmpDir)\<close> of line 98 runs when \<^verbatim>\<open>main\<close> returns or
  panics; \<^verbatim>\<open>die\<close> exits without running it.
\<close>

definition deferredRemove :: "env \<Rightarrow> string \<Rightarrow> event list \<Rightarrow> event list" where
  "deferredRemove e tmpDir lg = (if noSrcCleanupFlag e then lg else lg @ [EvRemove tmpDir])"

text \<open>
  \<^verbatim>\<open>main\<close> from line 92 on, for the location \<open>benchFuncLoc\<close> that the selection has
  left.
\<close>

definition mainBuild ::
  "env \<Rightarrow> string \<Rightarrow> string \<Rightarrow> package \<Rightarrow> fnLoc \<Rightarrow> unit result \<times> event list" where
  "mainBuild e cwd binaryPath pkg benchFuncLoc =
     (case MkdirTemp e of
        Inl err \<Rightarrow> (Die (TempDirFailed err), [])
      | Inr tmpDir \<Rightarrow>
     (let lg0 = [EvMkdirTemp tmpDir];
          bborigPath = pathJoin e tmpDir ''bborig''
      in case Mkdir e bborigPath of
        Some err \<Rightarrow> (Die (OrigDirFailed bborigPath err), lg0)
      | None \<Rightarrow>
     (case copyModuleToTmp e (Dir pkg) bborigPath (lg0 @ [EvMkdir bborigPath]) of
        (Some err, lg1) \<Rightarrow> (Die (CopyFailed (Dir pkg) bborigPath err), lg1)
      | (None, lg1) \<Rightarrow>
     (case filepathRel e cwd bborigPath of
        Inl err \<Rightarrow> (Die (RelFailed cwd bborigPath), lg1)
      | Inr bborigModulePath \<Rightarrow>
     (case rewriteBenchFuncInPlace e bborigModulePath benchFuncLoc lg1 of
        (Die f, lg2) \<Rightarrow> (Die f, lg2)
      | (Panic m, lg2) \<Rightarrow> (Panic m, deferredRemove e tmpDir lg2)
      | (Ok (Some err), lg2) \<Rightarrow> (Die (RewriteFailed err), lg2)
      | (Ok None, lg2) \<Rightarrow>
     (case renameTestFiles e bborigModulePath lg2 of
        (Some err, lg3) \<Rightarrow> (Die (RenameFailed err), lg3)
      | (None, lg3) \<Rightarrow>
     (let fullTmpModule = ''example.com/'' @ pathBase e tmpDir;
          data = \<lparr>OrigImport = fullTmpModule @ ''/bborig'', Func = locName benchFuncLoc\<rparr>
      in case renderMainToFile e data (pathJoin e tmpDir ''main.go'') lg3 of
        (Die f, lg4) \<Rightarrow> (Die f, lg4)
      | (Panic m, lg4) \<Rightarrow> (Panic m, deferredRemove e tmpDir lg4)
      | (Ok u, lg4) \<Rightarrow>
     (case runGo e tmpDir [''mod'', ''init'', fullTmpModule] lg4 of
        (Some err, lg5) \<Rightarrow> (Die (InitFailed err), lg5)
      | (None, lg5) \<Rightarrow>
     (case runGo e tmpDir [''mod'', ''tidy''] lg5 of
        (Some err, lg6) \<Rightarrow> (Die (TidyFailed err), lg6)
      | (None, lg6) \<Rightarrow>
     (case runGo e tmpDir [''build'', ''-o'', binaryPath] lg6 of
        (Some err, lg7) \<Rightarrow> (Die (CompileFailed err), lg7)
      | (None, lg7) \<Rightarrow>
          (Ok (), deferredRemove e tmpDir lg7)))))))))))"

text \<open>
  \<^verbatim>\<open>main\<close> (lines 43 to 167), up to the selection of \<^verbatim>\<open>foundBenchFuncs[0]\<close>.
\<close>

definition main :: "env \<Rightarrow> unit result \<times> event list" where
  "main e =
     (case Getwd e of
        Inl err \<Rightarrow> (Die (NoCwd err), [])
      | Inr cwd \<Rightarrow>
         if pathFlag e = [] then (Die MissingP, [])
         else if nameFlag e = [] then (Die MissingN, [])
         else
          (let binaryPath =
                 (if binaryPathFlag e \<noteq> []
                  then (if \<not> pathIsAbs e (binaryPathFlag e) then pathJoin e cwd (binaryPathFlag e)
                        else binaryPathFlag e)
                  else pathJoin e cwd ''benchmark.binary'');
               module = pathFlag e
           in case MustCompile e (''.*'' @ nameFlag e @ ''.*'') of
                None \<Rightarrow> (Panic ''regexp: Compile'', [])
              | Some nameRegex \<Rightarrow>
                 (case Import e module cwd of
                    Inl err \<Rightarrow> (Die (ImportFailed module err), [])
                  | Inr pkg \<Rightarrow>
                     (let foundBenchFuncs = findBenchmarkFuncs e pkg nameRegex
                      in if length foundBenchFuncs = 0 then (Die (NoMatch module), [])
                         else if length foundBenchFuncs > 1
                         then (Die (Ambiguous module (length foundBenchFuncs)), [])
                         else (case foundBenchFuncs of
                                 [] \<Rightarrow> (Panic ''index out of range'', [])
                               | benchFuncLoc # rest \<Rightarrow>
                                   mainBuild e cwd binaryPath pkg benchFuncLoc)))))"

text \<open>
  The effects that set the scratch workspace up: creating its directories and copying
  files into it. Every other effect writes, renames or removes a file, or runs a command.
\<close>

fun setupEvent :: "event \<Rightarrow> bool" where
  "setupEvent (EvMkdirTemp p) = True"
| "setupEvent (EvMkdir p) = True"
| "setupEvent (EvCreate p) = True"
| "setupEvent (EvCopy p q) = True"
| "setupEvent ev = False"

section \<open>The example benchmark of the repository\<close>

text \<open>
  The declarations of the example test file, with the harness parameter named \<open>h\<close>:
  \<^verbatim>\<open>BenchmarkMe(h *testing.B)\<close>, whose body sets \<^verbatim>\<open>data\<close>, calls \<^verbatim>\<open>h.SetBytes\<close> and
  sums \<^verbatim>\<open>data\<close> in a loop bounded by \<^verbatim>\<open>h.N\<close>, and \<^verbatim>\<open>TestSomething\<close>. The pointer
  type \<^verbatim>\<open>*testing.B\<close> is written as the selector \<^verbatim>\<open>testing.B\<close>; the rewrite does not look
  at parameter types.
\<close>

definition exampleBody :: "stmt list" where
  "exampleBody =
     [AssignStmt [var ''data'' 1] DEFINE
        [CompositeLit (Some (ArrayType None (Ident (MkIdent ''int'' None))))
           [BasicLit ''1'', BasicLit ''2'', BasicLit ''3'']],
      ExprStmt (CallExpr (harnessSel 0 ''SetBytes'')
        [BinaryExpr (CallExpr (Ident (MkIdent ''int64'' None))
                       [CallExpr (Ident (MkIdent ''len'' None)) [var ''data'' 1]])
                    MUL (BasicLit ''8'')]),
      ForStmt (Some (AssignStmt [var ''i'' 2] DEFINE [BasicLit ''0'']))
              (Some (BinaryExpr (var ''i'' 2) LSS (harnessSel 0 ''N'')))
              (Some (IncDecStmt (var ''i'' 2) INC))
              [AssignStmt [var ''total'' 3] DEFINE [BasicLit ''0''],
               RangeStmt (Some (Ident (MkIdent ''_'' None))) (Some (var ''x'' 4)) DEFINE (var ''data'' 1)
                 [AssignStmt [var ''total'' 3] ADD_ASSIGN [var ''x'' 4]]]]"

definition harnessParam :: field where
  "harnessParam =
     \<lparr>Names = [MkIdent ''h'' (Some 0)],
      Type = SelectorExpr (Ident (MkIdent ''testing'' None)) (MkIdent ''B'' None)\<rparr>"

definition BenchmarkMe :: funcDecl where
  "BenchmarkMe =
     \<lparr>Doc = None, FuncName = ''BenchmarkMe'', Params = [harnessParam], Body = Some exampleBody\<rparr>"

definition TestSomething :: funcDecl where
  "TestSomething =
     \<lparr>Doc = None, FuncName = ''TestSomething'',
      Params = [\<lparr>Names = [MkIdent ''t'' (Some 5)],
                 Type = SelectorExpr (Ident (MkIdent ''testing'' None)) (MkIdent ''T'' None)\<rparr>],
      Body = Some [ExprStmt (CallExpr (SelectorExpr (Ident (MkIdent ''t'' (Some 5))) (MkIdent ''Skip'' None)) [])]\<rparr>"

text \<open>
  An environment in which every call succeeds: the package holds the one test file
  \<^verbatim>\<open>example_test.go\<close>, every file parses to the declarations \<open>ds\<close>, and the temporary
  directory is \<^verbatim>\<open>/tmp/go-bb-1\<close>. Its matcher stands for \<^verbatim>\<open>regexp\<close> on an expression
  \<^verbatim>\<open>.*lit.*\<close> with a literal \<open>lit\<close>: it looks for \<open>lit\<close> inside the name.
\<close>

fun contains :: "string \<Rightarrow> string \<Rightarrow> bool" where
  "contains lit [] = (lit = [])"
| "contains lit (c # cs) = (prefix lit (c # cs) \<or> contains lit cs)"

definition exampleEnv :: "string \<Rightarrow> decl list \<Rightarrow> env" where
  "exampleEnv pat ds =
     \<lparr>Getwd = Inr ''/work'',
      pathFlag = ''./example'',
      nameFlag = pat,
      noSrcCleanupFlag = False,
      binaryPathFlag = [],
      pathJoin = (\<lambda>a b. a @ ''/'' @ b),
      pathIsAbs = (\<lambda>p. prefix ''/'' p),
      pathBase = (\<lambda>p. ''go-bb-1''),
      filepathRel = (\<lambda>a b. Inr (''..'' @ b)),
      MustCompile = (\<lambda>p. Some (contains (drop 2 (take (length p - 2) p)))),
      Import = (\<lambda>m c. Inr \<lparr>Dir = ''/work/example'', TestGoFiles = [''example_test.go''],
                             XTestGoFiles = []\<rparr>),
      ParseFile = (\<lambda>p. Inr ds),
      MkdirTemp = Inr ''/tmp/go-bb-1'',
      Mkdir = (\<lambda>p. None),
      ReadDir = (\<lambda>p. Inr [\<lparr>EntryName = ''example_test.go'', IsDir = False\<rparr>]),
      Open = (\<lambda>p. None),
      Create = (\<lambda>p. None),
      Copy = (\<lambda>p q. None),
      OpenFile = (\<lambda>p. None),
      formatNode = (\<lambda>f. Written),
      Rename = (\<lambda>p q. None),
      cmdOutput = (\<lambda>d a. None)\<rparr>"

section \<open>Properties of the reference transformer\<close>

text \<open>
  C8. The body \<^verbatim>\<open>h.StartTimer(); compute(); h.StopTimer()\<close>, with \<open>h\<close> the harness
  parameter, is rewritten to the body with the single statement \<^verbatim>\<open>compute()\<close>: both
  harness calls are removed and the unrelated statement stays.
\<close>

theorem timer_scenario:
  "removeReferencesToIdentifier (Some k)
     [harnessCallStmt k ''StartTimer'', plainCallStmt ''compute'' c, harnessCallStmt k ''StopTimer'']
   = [plainCallStmt ''compute'' c]"
  by (simp add: removeReferencesToIdentifier_def traverse_def harnessCallStmt_def
      plainCallStmt_def postVisit_def applyNil_def apply_defs)

lemma applyNil_id [simp]: "applyNil s = s"
  by (simp add: applyNil_def)

lemma callRule_refs: "\<not> refs_expr h e \<Longrightarrow> \<not> callRule h e"
  by (induction h e rule: callRule.induct) simp_all

lemma forCond_refs: "\<forall>e \<in> set_option c. \<not> refs_expr h e \<Longrightarrow> \<not> forCond h c"
  by (induction h c rule: forCond.induct) simp_all

lemma applyList_unchanged:
  "(\<And>x u. x \<in> set xs \<Longrightarrow> \<not> deleteMe u \<Longrightarrow> f u x = (u, Some x)) \<Longrightarrow> \<not> deleteMe s
   \<Longrightarrow> applyList f s xs = (s, xs)"
  by (induction xs arbitrary: s) simp_all

lemma applyOpt_unchanged:
  "(\<And>x u. x \<in> set_option y \<Longrightarrow> \<not> deleteMe u \<Longrightarrow> f u x = (u, x)) \<Longrightarrow> \<not> deleteMe s
   \<Longrightarrow> applyOpt f s y = (s, y)"
  by (cases y) simp_all

lemma apply_expr_unchanged_if:
  "\<not> refs_expr h e \<Longrightarrow> \<not> deleteMe s \<Longrightarrow> (\<And>u. \<not> deleteMe u \<Longrightarrow> walk_expr h u e = (u, e))
   \<Longrightarrow> apply_expr h s e = (s, e)"
  by (simp add: apply_defs callRule_refs)

lemma elem_expr_unchanged_if:
  "\<not> refs_expr h e \<Longrightarrow> \<not> deleteMe s \<Longrightarrow> (\<And>u. \<not> deleteMe u \<Longrightarrow> walk_expr h u e = (u, e))
   \<Longrightarrow> elem_expr h s e = (s, Some e)"
  by (simp add: apply_defs postVisit_def callRule_refs)

lemma walk_expr_unchanged:
  "\<not> refs_expr h e \<Longrightarrow> \<not> deleteMe s \<Longrightarrow> walk_expr h s e = (s, e)"
proof (induction e arbitrary: s)
  case (CompositeLit t elts)
  have a: "applyOpt (apply_expr h) s t = (s, t)"
    using CompositeLit
    by (intro applyOpt_unchanged apply_expr_unchanged_if) (auto split: option.splits)
  have b: "applyList (elem_expr h) s elts = (s, elts)"
    using CompositeLit
    by (intro applyList_unchanged elem_expr_unchanged_if) auto
  show ?case by (simp add: a b)
next
  case (CallExpr f args)
  have a: "apply_expr h s f = (s, f)"
    using CallExpr by (intro apply_expr_unchanged_if) auto
  have b: "applyList (elem_expr h) s args = (s, args)"
    using CallExpr
    by (intro applyList_unchanged elem_expr_unchanged_if) auto
  show ?case by (simp add: a b)
next
  case (ArrayType l elt)
  have a: "applyOpt (apply_expr h) s l = (s, l)"
    using ArrayType
    by (intro applyOpt_unchanged apply_expr_unchanged_if) (auto split: option.splits)
  have b: "apply_expr h s elt = (s, elt)"
    using ArrayType by (intro apply_expr_unchanged_if) auto
  show ?case by (simp add: a b)
qed (simp_all add: apply_expr_unchanged_if)

lemma apply_expr_unchanged:
  "\<not> refs_expr h e \<Longrightarrow> \<not> deleteMe s \<Longrightarrow> apply_expr h s e = (s, e)"
  by (simp add: apply_expr_unchanged_if walk_expr_unchanged)

lemma elem_expr_unchanged:
  "\<not> refs_expr h e \<Longrightarrow> \<not> deleteMe s \<Longrightarrow> elem_expr h s e = (s, Some e)"
  by (simp add: elem_expr_unchanged_if walk_expr_unchanged)

lemma exprs_unchanged:
  "\<forall>e \<in> set es. \<not> refs_expr h e \<Longrightarrow> \<not> deleteMe s \<Longrightarrow> applyList (elem_expr h) s es = (s, es)"
  by (intro applyList_unchanged elem_expr_unchanged) auto

lemma expr_opt_unchanged:
  "\<forall>e \<in> set_option y. \<not> refs_expr h e \<Longrightarrow> \<not> deleteMe s \<Longrightarrow> applyOpt (apply_expr h) s y = (s, y)"
  by (intro applyOpt_unchanged apply_expr_unchanged) auto

lemma apply_stmt_unchanged_if:
  "\<not> deleteMe s \<Longrightarrow> (\<And>u. \<not> deleteMe u \<Longrightarrow> walk_stmt h u st = (u, st))
   \<Longrightarrow> apply_stmt h s st = (s, st)"
  by (simp add: apply_defs)

lemma elem_stmt_unchanged_if:
  "\<not> deleteMe s \<Longrightarrow> (\<And>u. \<not> deleteMe u \<Longrightarrow> walk_stmt h u st = (u, st))
   \<Longrightarrow> elem_stmt h s st = (s, Some st)"
  by (simp add: apply_defs postVisit_def)

lemma apply_body_unchanged_if:
  "\<not> deleteMe s \<Longrightarrow> (\<And>u. \<not> deleteMe u \<Longrightarrow> applyList (elem_stmt h) u ss = (u, ss))
   \<Longrightarrow> apply_body h s ss = (s, ss)"
  by (simp add: apply_defs)

lemma walk_stmt_unchanged:
  "\<not> refs_stmt h st \<Longrightarrow> \<not> deleteMe s \<Longrightarrow> walk_stmt h s st = (s, st)"
proof (induction st arbitrary: s)
  case (ExprStmt x)
  then show ?case by (simp add: apply_expr_unchanged)
next
  case (IncDecStmt x tok)
  then show ?case by (simp add: apply_expr_unchanged)
next
  case (AssignStmt lhs tok rhs)
  then show ?case by (simp add: exprs_unchanged)
next
  case (ReturnStmt results)
  then show ?case by (simp add: exprs_unchanged)
next
  case (BlockStmt ss)
  have "applyList (elem_stmt h) s ss = (s, ss)"
    using BlockStmt by (intro applyList_unchanged elem_stmt_unchanged_if) auto
  then show ?case by simp
next
  case (IfStmt init cond body els)
  have a: "applyOpt (apply_stmt h) s init = (s, init)"
    using IfStmt by (intro applyOpt_unchanged apply_stmt_unchanged_if) (auto split: option.splits)
  have b: "apply_expr h s cond = (s, cond)"
    using IfStmt by (simp add: apply_expr_unchanged)
  have c: "apply_body h s body = (s, body)"
    using IfStmt
    by (intro apply_body_unchanged_if applyList_unchanged elem_stmt_unchanged_if) auto
  have d: "applyOpt (apply_stmt h) s els = (s, els)"
    using IfStmt by (intro applyOpt_unchanged apply_stmt_unchanged_if) (auto split: option.splits)
  show ?case by (simp add: a b c d)
next
  case (ForStmt init cond post body)
  have a: "applyOpt (apply_stmt h) s init = (s, init)"
    using ForStmt by (intro applyOpt_unchanged apply_stmt_unchanged_if) (auto split: option.splits)
  have b: "applyOpt (apply_expr h) s cond = (s, cond)"
    using ForStmt by (intro expr_opt_unchanged) (auto split: option.splits)
  have c: "applyOpt (apply_stmt h) s post = (s, post)"
    using ForStmt by (intro applyOpt_unchanged apply_stmt_unchanged_if) (auto split: option.splits)
  have d: "apply_body h s body = (s, body)"
    using ForStmt
    by (intro apply_body_unchanged_if applyList_unchanged elem_stmt_unchanged_if) auto
  have e: "\<not> forCond h cond"
    using ForStmt by (intro forCond_refs) (auto split: option.splits)
  show ?case by (simp add: a b c d e)
next
  case (RangeStmt key val tok x body)
  have a: "applyOpt (apply_expr h) s key = (s, key)"
    using RangeStmt by (intro expr_opt_unchanged) (auto split: option.splits)
  have b: "applyOpt (apply_expr h) s val = (s, val)"
    using RangeStmt by (intro expr_opt_unchanged) (auto split: option.splits)
  have c: "apply_expr h s x = (s, x)"
    using RangeStmt by (simp add: apply_expr_unchanged)
  have d: "apply_body h s body = (s, body)"
    using RangeStmt
    by (intro apply_body_unchanged_if applyList_unchanged elem_stmt_unchanged_if) auto
  show ?case by (simp add: a b c d)
qed

lemma traverse_unchanged:
  "\<not> refs_body h body \<Longrightarrow> traverse h body = (\<lparr>depth = 0, deleteMe = False\<rparr>, body)"
  unfolding traverse_def refs_body_def
  by (intro apply_body_unchanged_if applyList_unchanged elem_stmt_unchanged_if walk_stmt_unchanged)
     auto

text \<open>
  C7. A body without any occurrence of the harness parameter is returned as it is.
\<close>

theorem no_refs_noop:
  "\<not> refs_body h body \<Longrightarrow> removeReferencesToIdentifier h body = body"
  by (simp add: removeReferencesToIdentifier_def traverse_unchanged)

theorem no_refs_noop_witness:
  "\<not> refs_body (Some 0)
       [AssignStmt [Ident (MkIdent ''total'' (Some 1))] DEFINE [BasicLit ''0''],
        RangeStmt (Some (Ident (MkIdent ''_'' None))) (Some (Ident (MkIdent ''x'' (Some 2)))) DEFINE
          (Ident (MkIdent ''data'' (Some 3)))
          [AssignStmt [Ident (MkIdent ''total'' (Some 1))] ADD_ASSIGN [Ident (MkIdent ''x'' (Some 2))]],
        plainCallStmt ''compute'' None]
   \<and> removeReferencesToIdentifier (Some 0)
       [AssignStmt [Ident (MkIdent ''total'' (Some 1))] DEFINE [BasicLit ''0''],
        RangeStmt (Some (Ident (MkIdent ''_'' None))) (Some (Ident (MkIdent ''x'' (Some 2)))) DEFINE
          (Ident (MkIdent ''data'' (Some 3)))
          [AssignStmt [Ident (MkIdent ''total'' (Some 1))] ADD_ASSIGN [Ident (MkIdent ''x'' (Some 2))]],
        plainCallStmt ''compute'' None]
     = [AssignStmt [Ident (MkIdent ''total'' (Some 1))] DEFINE [BasicLit ''0''],
        RangeStmt (Some (Ident (MkIdent ''_'' None))) (Some (Ident (MkIdent ''x'' (Some 2)))) DEFINE
          (Ident (MkIdent ''data'' (Some 3)))
          [AssignStmt [Ident (MkIdent ''total'' (Some 1))] ADD_ASSIGN [Ident (MkIdent ''x'' (Some 2))]],
        plainCallStmt ''compute'' None]"
proof -
  have h: "\<not> refs_body (Some 0)
       [AssignStmt [Ident (MkIdent ''total'' (Some 1))] DEFINE [BasicLit ''0''],
        RangeStmt (Some (Ident (MkIdent ''_'' None))) (Some (Ident (MkIdent ''x'' (Some 2)))) DEFINE
          (Ident (MkIdent ''data'' (Some 3)))
          [AssignStmt [Ident (MkIdent ''total'' (Some 1))] ADD_ASSIGN [Ident (MkIdent ''x'' (Some 2))]],
        plainCallStmt ''compute'' None]"
    by (simp add: refs_body_def plainCallStmt_def)
  show ?thesis using h no_refs_noop [OF h] by simp
qed

lemma applyList_inv:
  "(\<And>x u. x \<in> set xs \<Longrightarrow> \<not> deleteMe u \<Longrightarrow> fst (f u x) = u \<and> (\<forall>y. snd (f u x) = Some y \<longrightarrow> Q y))
   \<Longrightarrow> \<not> deleteMe s
   \<Longrightarrow> fst (applyList f s xs) = s \<and> (\<forall>y \<in> set (snd (applyList f s xs)). Q y)"
proof (induction xs arbitrary: s)
  case Nil
  then show ?case by simp
next
  case (Cons x xs)
  obtain r where r: "f s x = (s, r)"
    using Cons.prems(1)[of x s] Cons.prems(2) by (cases "f s x") auto
  have q: "\<forall>y. r = Some y \<longrightarrow> Q y"
    using Cons.prems(1)[of x s] Cons.prems(2) r by auto
  have ih: "fst (applyList f s xs) = s \<and> (\<forall>y \<in> set (snd (applyList f s xs)). Q y)"
    using Cons.prems by (intro Cons.IH) auto
  show ?case using r q ih by (cases r) (auto split: prod.splits)
qed

lemma applyOpt_inv:
  "(\<And>x u. x \<in> set_option y \<Longrightarrow> \<not> deleteMe u \<Longrightarrow> fst (f u x) = u \<and> Q (snd (f u x)))
   \<Longrightarrow> \<not> deleteMe s
   \<Longrightarrow> fst (applyOpt f s y) = s \<and> (\<forall>z \<in> set_option (snd (applyOpt f s y)). Q z)"
proof (cases y)
  case None
  then show ?thesis by simp
next
  case (Some a)
  assume p: "\<And>x u. x \<in> set_option y \<Longrightarrow> \<not> deleteMe u \<Longrightarrow> fst (f u x) = u \<and> Q (snd (f u x))"
    and s: "\<not> deleteMe s"
  show ?thesis using p[of a s] s Some by (auto split: prod.splits)
qed

lemma elem_stmt_hcall:
  "hcallStmt h st \<Longrightarrow> \<not> deleteMe s \<Longrightarrow> elem_stmt h s st = (s, None)"
  by (induction h st rule: hcallStmt.induct) (simp_all add: apply_defs postVisit_def)

lemma apply_stmt_inv_if:
  "\<not> deleteMe s
   \<Longrightarrow> (\<And>u. \<not> deleteMe u \<Longrightarrow> fst (walk_stmt h u st) = u \<and> \<not> refs_stmt h (snd (walk_stmt h u st)))
   \<Longrightarrow> fst (apply_stmt h s st) = s \<and> \<not> refs_stmt h (snd (apply_stmt h s st))"
  by (simp add: apply_defs case_prod_beta)

lemma elem_stmt_inv_if:
  "\<not> deleteMe s
   \<Longrightarrow> (\<And>u. \<not> deleteMe u \<Longrightarrow> fst (walk_stmt h u st) = u \<and> \<not> refs_stmt h (snd (walk_stmt h u st)))
   \<Longrightarrow> fst (elem_stmt h s st) = s \<and> (\<forall>y. snd (elem_stmt h s st) = Some y \<longrightarrow> \<not> refs_stmt h y)"
  by (simp add: apply_defs case_prod_beta postVisit_def)

lemma apply_body_inv_if:
  "\<not> deleteMe s
   \<Longrightarrow> (\<And>u. \<not> deleteMe u \<Longrightarrow> fst (applyList (elem_stmt h) u ss) = u
         \<and> (\<forall>y \<in> set (snd (applyList (elem_stmt h) u ss)). \<not> refs_stmt h y))
   \<Longrightarrow> fst (apply_body h s ss) = s \<and> (\<forall>y \<in> set (snd (apply_body h s ss)). \<not> refs_stmt h y)"
proof -
  assume s: "\<not> deleteMe s"
    and p: "\<And>u. \<not> deleteMe u \<Longrightarrow> fst (applyList (elem_stmt h) u ss) = u
         \<and> (\<forall>y \<in> set (snd (applyList (elem_stmt h) u ss)). \<not> refs_stmt h y)"
  show ?thesis using p[of "s\<lparr>depth := depth s + 1\<rparr>"] s
    by (simp add: apply_defs case_prod_beta)
qed

lemma apply_expr_walk:
  "\<not> callRule h e \<Longrightarrow> apply_expr h s e =
     (case walk_expr h (s\<lparr>depth := depth s + 1\<rparr>) e of (s1, e') \<Rightarrow> (s1\<lparr>depth := depth s1 - 1\<rparr>, e'))"
  by (simp add: apply_defs)

lemma bound_walk:
  "bound_ok h cond \<Longrightarrow> \<not> deleteMe s \<Longrightarrow> fst (applyOpt (apply_expr h) s cond) = s"
proof (cases "forCond h cond")
  case True
  assume b: "bound_ok h cond" and s: "\<not> deleteMe s"
  from True obtain x i sel where c: "cond = Some (BinaryExpr x LSS (SelectorExpr (Ident i) sel))"
    by (auto elim: forCond.elims)
  have "\<not> refs_expr h x" using b True c by (simp add: bound_ok_def)
  then show ?thesis using s c by (simp add: apply_expr_walk apply_expr_unchanged)
next
  case False
  assume b: "bound_ok h cond" and s: "\<not> deleteMe s"
  then show ?thesis using False by (simp add: bound_ok_def expr_opt_unchanged)
qed

lemma stmts_clean:
  assumes "\<forall>st \<in> set ss. hcallStmt h st \<or> clean_stmt h st"
    and "\<And>x u. x \<in> set ss \<Longrightarrow> clean_stmt h x \<Longrightarrow> \<not> deleteMe u
           \<Longrightarrow> fst (walk_stmt h u x) = u \<and> \<not> refs_stmt h (snd (walk_stmt h u x))"
    and "\<not> deleteMe s"
  shows "fst (applyList (elem_stmt h) s ss) = s
         \<and> (\<forall>y \<in> set (snd (applyList (elem_stmt h) s ss)). \<not> refs_stmt h y)"
proof (rule applyList_inv)
  fix x and u :: tstate
  assume x: "x \<in> set ss" and u: "\<not> deleteMe u"
  show "fst (elem_stmt h u x) = u \<and> (\<forall>y. snd (elem_stmt h u x) = Some y \<longrightarrow> \<not> refs_stmt h y)"
  proof (cases "hcallStmt h x")
    case True
    then show ?thesis using u by (simp add: elem_stmt_hcall)
  next
    case False
    then have "clean_stmt h x" using assms(1) x by auto
    then show ?thesis using u x assms(2) by (intro elem_stmt_inv_if) auto
  qed
qed (rule assms(3))

lemma body_clean:
  assumes "\<forall>st \<in> set ss. hcallStmt h st \<or> clean_stmt h st"
    and "\<And>x u. x \<in> set ss \<Longrightarrow> clean_stmt h x \<Longrightarrow> \<not> deleteMe u
           \<Longrightarrow> fst (walk_stmt h u x) = u \<and> \<not> refs_stmt h (snd (walk_stmt h u x))"
    and "\<not> deleteMe s"
  shows "fst (apply_body h s ss) = s \<and> (\<forall>y \<in> set (snd (apply_body h s ss)). \<not> refs_stmt h y)"
  using assms by (intro apply_body_inv_if stmts_clean) auto

lemma stmt_opt_clean:
  assumes "\<forall>i \<in> set_option y. clean_stmt h i"
    and "\<And>x u. x \<in> set_option y \<Longrightarrow> clean_stmt h x \<Longrightarrow> \<not> deleteMe u
           \<Longrightarrow> fst (walk_stmt h u x) = u \<and> \<not> refs_stmt h (snd (walk_stmt h u x))"
    and "\<not> deleteMe s"
  shows "fst (applyOpt (apply_stmt h) s y) = s
         \<and> (\<forall>z \<in> set_option (snd (applyOpt (apply_stmt h) s y)). \<not> refs_stmt h z)"
  using assms by (intro applyOpt_inv apply_stmt_inv_if) auto

lemma no_refs_opt:
  "(\<forall>z \<in> set_option y. \<not> P z) \<Longrightarrow> \<not> (case y of None \<Rightarrow> False | Some i \<Rightarrow> P i)"
  by (cases y) auto

lemma walk_stmt_clean:
  "clean_stmt h st \<Longrightarrow> \<not> deleteMe s
   \<Longrightarrow> fst (walk_stmt h s st) = s \<and> \<not> refs_stmt h (snd (walk_stmt h s st))"
proof (induction st arbitrary: s)
  case (ExprStmt x)
  then show ?case by (simp add: apply_expr_unchanged)
next
  case (IncDecStmt x tok)
  then show ?case by (simp add: apply_expr_unchanged)
next
  case (AssignStmt lhs tok rhs)
  then show ?case by (simp add: exprs_unchanged)
next
  case (ReturnStmt results)
  then show ?case by (simp add: exprs_unchanged)
next
  case (BlockStmt ss)
  have "fst (applyList (elem_stmt h) s ss) = s
        \<and> (\<forall>y \<in> set (snd (applyList (elem_stmt h) s ss)). \<not> refs_stmt h y)"
    using BlockStmt by (intro stmts_clean) auto
  then show ?case by (simp add: case_prod_beta)
next
  case (IfStmt init cond body els)
  have a: "fst (applyOpt (apply_stmt h) s init) = s
        \<and> (\<forall>z \<in> set_option (snd (applyOpt (apply_stmt h) s init)). \<not> refs_stmt h z)"
    using IfStmt by (intro stmt_opt_clean) auto
  have b: "apply_expr h s cond = (s, cond)"
    using IfStmt by (simp add: apply_expr_unchanged)
  have c: "fst (apply_body h s body) = s \<and> (\<forall>y \<in> set (snd (apply_body h s body)). \<not> refs_stmt h y)"
    using IfStmt by (intro body_clean) auto
  have d: "fst (applyOpt (apply_stmt h) s els) = s
        \<and> (\<forall>z \<in> set_option (snd (applyOpt (apply_stmt h) s els)). \<not> refs_stmt h z)"
    using IfStmt by (intro stmt_opt_clean) auto
  have e: "\<not> refs_expr h cond" using IfStmt by simp
  show ?case using a b c d e by (simp add: case_prod_beta no_refs_opt)
next
  case (ForStmt init cond post body)
  have a: "fst (applyOpt (apply_stmt h) s init) = s
        \<and> (\<forall>z \<in> set_option (snd (applyOpt (apply_stmt h) s init)). \<not> refs_stmt h z)"
    using ForStmt by (intro stmt_opt_clean) auto
  have b: "fst (applyOpt (apply_expr h) s cond) = s"
    using ForStmt by (simp add: bound_walk)
  have c: "fst (applyOpt (apply_stmt h) s post) = s
        \<and> (\<forall>z \<in> set_option (snd (applyOpt (apply_stmt h) s post)). \<not> refs_stmt h z)"
    using ForStmt by (intro stmt_opt_clean) auto
  have d: "fst (apply_body h s body) = s \<and> (\<forall>y \<in> set (snd (apply_body h s body)). \<not> refs_stmt h y)"
    using ForStmt by (intro body_clean) auto
  have e: "\<not> forCond h cond \<Longrightarrow> applyOpt (apply_expr h) s cond = (s, cond)
             \<and> (\<forall>z \<in> set_option cond. \<not> refs_expr h z)"
    using ForStmt by (simp add: bound_ok_def expr_opt_unchanged)
  show ?case
  proof (cases "forCond h cond")
    case True
    then show ?thesis using a b c d by (simp add: case_prod_beta)
  next
    case False
    then show ?thesis using a c d e by (simp add: case_prod_beta no_refs_opt)
  qed
next
  case (RangeStmt key val tok x body)
  have a: "applyOpt (apply_expr h) s key = (s, key)"
    using RangeStmt by (intro expr_opt_unchanged) auto
  have b: "applyOpt (apply_expr h) s val = (s, val)"
    using RangeStmt by (intro expr_opt_unchanged) auto
  have c: "apply_expr h s x = (s, x)"
    using RangeStmt by (simp add: apply_expr_unchanged)
  have d: "fst (apply_body h s body) = s \<and> (\<forall>y \<in> set (snd (apply_body h s body)). \<not> refs_stmt h y)"
    using RangeStmt by (intro body_clean) auto
  have e: "(\<forall>k \<in> set_option key. \<not> refs_expr h k) \<and> (\<forall>v \<in> set_option val. \<not> refs_expr h v)
           \<and> \<not> refs_expr h x"
    using RangeStmt by simp
  show ?case using a b c d e by (simp add: case_prod_beta no_refs_opt)
qed

text \<open>
  Where the rewrite does clear a body: when every occurrence of the harness parameter lies
  in a statement \<^verbatim>\<open>h.m(...)\<close> that is itself an element of a statement list, or is the base
  of the right operand of the \<^verbatim>\<open><\<close> condition of a \<^verbatim>\<open>for\<close> statement, the returned body
  holds no occurrence of the harness parameter.
\<close>

lemma removable_no_refs:
  "removable_body h body \<Longrightarrow> \<not> refs_body h (removeReferencesToIdentifier h body)"
proof -
  assume r: "removable_body h body"
  have "fst (traverse h body) = \<lparr>depth = 0, deleteMe = False\<rparr>
        \<and> (\<forall>y \<in> set (snd (traverse h body)). \<not> refs_stmt h y)"
    unfolding traverse_def using r
    by (intro body_clean walk_stmt_clean) (auto simp: removable_body_def)
  then show ?thesis by (simp add: removeReferencesToIdentifier_def refs_body_def)
qed

lemmas scenario_defs =
  harnessSel_def var_def loopOverN_def harnessCallStmt_def plainCallStmt_def

lemmas run_defs =
  removeReferencesToIdentifier_def traverse_def apply_defs postVisit_def applyNil_def

lemma removable_no_refs_example:
  "removable_body (Some 0)
     [harnessCallStmt 0 ''ResetTimer'',
      loopOverN 0 [harnessCallStmt 0 ''StartTimer'', plainCallStmt ''work'' None]]
   \<and> \<not> refs_body (Some 0) (removeReferencesToIdentifier (Some 0)
     [harnessCallStmt 0 ''ResetTimer'',
      loopOverN 0 [harnessCallStmt 0 ''StartTimer'', plainCallStmt ''work'' None]])"
proof -
  have h: "removable_body (Some 0)
     [harnessCallStmt 0 ''ResetTimer'',
      loopOverN 0 [harnessCallStmt 0 ''StartTimer'', plainCallStmt ''work'' None]]"
    by (simp add: removable_body_def bound_ok_def scenario_defs)
  show ?thesis using h removable_no_refs [OF h] by simp
qed

text \<open>
  C1. The body \<^verbatim>\<open>record(h.Elapsed(), n)\<close> meets the condition of the specification: its
  one occurrence of the harness parameter is the base of the callee of a call. The call
  \<^verbatim>\<open>h.Elapsed()\<close> raises \<^verbatim>\<open>deleteMe\<close> and is not visited in post-order; the next node
  visited in post-order that has an index is the argument \<^verbatim>\<open>n\<close>, which is deleted in
  place of the statement, and \<^verbatim>\<open>record(h.Elapsed())\<close> remains with its occurrence. With
  the arguments in the other order no node with an index follows the call before the
  statement itself, and the statement is removed.
\<close>

theorem nested_call_keeps_reference:
  "allowed_body (Some 0)
     [ExprStmt (CallExpr (Ident (MkIdent ''record'' None))
        [CallExpr (harnessSel 0 ''Elapsed'') [], var ''n'' 5])]
   \<and> removeReferencesToIdentifier (Some 0)
     [ExprStmt (CallExpr (Ident (MkIdent ''record'' None))
        [CallExpr (harnessSel 0 ''Elapsed'') [], var ''n'' 5])]
     = [ExprStmt (CallExpr (Ident (MkIdent ''record'' None)) [CallExpr (harnessSel 0 ''Elapsed'') []])]
   \<and> refs_body (Some 0) (removeReferencesToIdentifier (Some 0)
     [ExprStmt (CallExpr (Ident (MkIdent ''record'' None))
        [CallExpr (harnessSel 0 ''Elapsed'') [], var ''n'' 5])])
   \<and> removeReferencesToIdentifier (Some 0)
     [ExprStmt (CallExpr (Ident (MkIdent ''record'' None))
        [var ''n'' 5, CallExpr (harnessSel 0 ''Elapsed'') []])]
     = []"
  by (simp add: allowed_body_def refs_body_def scenario_defs run_defs)

text \<open>
  C2. In \<^verbatim>\<open>if h.Failed() { cleanup() }\<close> the signal raised in the condition is consumed
  by the statement \<^verbatim>\<open>cleanup()\<close>, which is no ancestor of the call, and the \<^verbatim>\<open>if\<close>
  statement, the first ancestor that is an element of a statement list, stays. With an
  empty body nothing with an index is visited before the \<^verbatim>\<open>if\<close> statement, and the
  \<^verbatim>\<open>if\<close> statement is the one removed.
\<close>

theorem signal_consumed_by_non_ancestor:
  "removeReferencesToIdentifier (Some 0)
     [IfStmt None (CallExpr (harnessSel 0 ''Failed'') []) [plainCallStmt ''cleanup'' None] None]
   = [IfStmt None (CallExpr (harnessSel 0 ''Failed'') []) [] None]
   \<and> removeReferencesToIdentifier (Some 0)
     [IfStmt None (CallExpr (harnessSel 0 ''Failed'') []) [] None]
   = []"
  by (simp add: scenario_defs run_defs)


lemma applyList_flag:
  "(\<And>x u. x \<in> set xs \<Longrightarrow> \<not> deleteMe (fst (f u x))) \<Longrightarrow> \<not> deleteMe s
   \<Longrightarrow> \<not> deleteMe (fst (applyList f s xs))"
  by (induction xs arbitrary: s) (auto split: prod.splits option.splits, (metis fst_conv)+)

lemma elem_stmt_flag: "\<not> deleteMe (fst (elem_stmt h s st))"
  by (simp add: apply_defs postVisit_def case_prod_beta Let_def)

text \<open>
  The signal is cleared when the traversal of a body ends.
\<close>

lemma traverse_flag: "\<not> deleteMe (fst (traverse h body))"
  unfolding traverse_def apply_body.simps
  using applyList_flag[of body "elem_stmt h" "\<lparr>depth = 0 + 1, deleteMe = False\<rparr>"]
  by (simp add: elem_stmt_flag case_prod_beta)

lemma stmts_filter:
  "\<forall>st \<in> set ss. hcallStmt h st \<or> \<not> refs_stmt h st \<Longrightarrow> \<not> deleteMe s
   \<Longrightarrow> applyList (elem_stmt h) s ss = (s, filter (\<lambda>st. \<not> hcallStmt h st) ss)"
proof (induction ss)
  case Nil
  then show ?case by simp
next
  case (Cons x xs)
  show ?case
  proof (cases "hcallStmt h x")
    case True
    then show ?thesis using Cons by (simp add: elem_stmt_hcall)
  next
    case False
    then have "elem_stmt h s x = (s, Some x)"
      using Cons.prems by (intro elem_stmt_unchanged_if walk_stmt_unchanged) auto
    then show ?thesis using False Cons by simp
  qed
qed

text \<open>
  The usual loop: with no occurrence in the init statement, the post statement and the left
  operand of the condition, and a body made of harness call statements and statements
  without occurrence, the block holds the body's other statements in their original order.
\<close>

lemma hoist_keeps_block:
  assumes "forCond h cond" and "bound_ok h cond"
    and "\<forall>i \<in> set_option init. \<not> refs_stmt h i"
    and "\<forall>p \<in> set_option post. \<not> refs_stmt h p"
    and "\<forall>st \<in> set body. hcallStmt h st \<or> \<not> refs_stmt h st"
    and "\<not> deleteMe s"
  shows "elem_stmt h s (ForStmt init cond post body)
         = (s, Some (BlockStmt (filter (\<lambda>st. \<not> hcallStmt h st) body)))"
proof -
  let ?u = "s\<lparr>depth := depth s + 1\<rparr>"
  have u: "\<not> deleteMe ?u" using assms(6) by simp
  have a: "applyOpt (apply_stmt h) ?u init = (?u, init)"
    using assms(3) u
    by (intro applyOpt_unchanged apply_stmt_unchanged_if walk_stmt_unchanged) auto
  have b: "fst (applyOpt (apply_expr h) ?u cond) = ?u"
    using assms(2) u by (rule bound_walk)
  have c: "applyOpt (apply_stmt h) ?u post = (?u, post)"
    using assms(4) u
    by (intro applyOpt_unchanged apply_stmt_unchanged_if walk_stmt_unchanged) auto
  have d: "apply_body h ?u body = (?u, filter (\<lambda>st. \<not> hcallStmt h st) body)"
    using assms(5) u by (simp add: apply_body.simps stmts_filter)
  have "walk_stmt h ?u (ForStmt init cond post body)
        = (?u, BlockStmt (filter (\<lambda>st. \<not> hcallStmt h st) body))"
    using a b c d assms(1) by (simp add: case_prod_beta)
  then show ?thesis using assms(6) by (simp add: elem_stmt.simps postVisit_def)
qed







section \<open>Properties of the declaration editor and of the run\<close>

lemmas main_defs =
  main_def mainBuild_def findBenchmarkFuncs_def copyModuleToTmp_def copyFile_def
  rewriteBenchFuncInPlace_def rewriteDecl_def renameTestFiles_def renderMainToFile_def
  runGo_def deferredRemove_def HasPrefix_def HasSuffix_def suffix_to_prefix Let_def

lemma NumFields_pos: "gs \<noteq> [] \<Longrightarrow> 0 < NumFields gs"
  by (cases gs) auto

lemma NumFields_one:
  "NumFields gs = 1 \<Longrightarrow> \<exists>g. gs = [g] \<and> length (Names g) \<le> 1"
proof (cases gs)
  case Nil
  assume "NumFields gs = 1"
  then show ?thesis using Nil by simp
next
  case (Cons g rest)
  assume n: "NumFields gs = 1"
  have "rest = []"
  proof (rule ccontr)
    assume "rest \<noteq> []"
    then have "0 < NumFields rest" by (rule NumFields_pos)
    then show False using n Cons by (cases "Names g") (auto split: if_splits)
  qed
  then show ?thesis using n Cons by (simp split: if_splits)
qed

text \<open>
  The example benchmark: the call \<^verbatim>\<open>h.SetBytes(...)\<close> goes, the loop over \<^verbatim>\<open>h.N\<close>
  leaves its body as a block, the parameter list is empty and the directive is attached.
\<close>

lemma example_rewrite:
  "rewriteDecl BenchmarkMe =
     Ok \<lparr>Doc = Some [''//go:noinline''], FuncName = ''BenchmarkMe'', Params = [],
         Body = Some
           [AssignStmt [var ''data'' 1] DEFINE
              [CompositeLit (Some (ArrayType None (Ident (MkIdent ''int'' None))))
                 [BasicLit ''1'', BasicLit ''2'', BasicLit ''3'']],
            BlockStmt
              [AssignStmt [var ''total'' 3] DEFINE [BasicLit ''0''],
               RangeStmt (Some (Ident (MkIdent ''_'' None))) (Some (var ''x'' 4)) DEFINE
                 (var ''data'' 1)
                 [AssignStmt [var ''total'' 3] ADD_ASSIGN [var ''x'' 4]]]]\<rparr>"
  by (simp add: rewriteDecl_def BenchmarkMe_def harnessParam_def exampleBody_def
      scenario_defs run_defs)

text \<open>
  For a declaration with exactly one parameter, which has a name, the edit empties the
  parameter list and attaches the directive \<^verbatim>\<open>//go:noinline\<close>; the parse keeps no
  comments, so the directive is the only element of the leading comments.
\<close>

lemma editor_named_parameter:
  assumes "NumFields (Params d) = 1" and "\<forall>g \<in> set (Params d). Names g \<noteq> []"
    and "Doc d = None"
  shows "\<exists>d'. rewriteDecl d = Ok d' \<and> Params d' = [] \<and> FuncName d' = FuncName d
           \<and> Doc d' = Some [''//go:noinline'']"
proof -
  obtain g where g: "Params d = [g]" using NumFields_one[OF assms(1)] by auto
  then obtain i ns where i: "Names g = i # ns" using assms(2) by (cases "Names g") auto
  show ?thesis using assms(1) assms(3) g i by (simp add: rewriteDecl_def)
qed

text \<open>
  C4. The declaration \<^verbatim>\<open>func BenchmarkMe(*testing.B)\<close> has exactly one parameter, without
  a name: \<^verbatim>\<open>NumFields\<close> counts it once, the check of line 256 passes, and
  \<^verbatim>\<open>d.Type.Params.List[0].Names[0]\<close> panics. The run has copied the sources by then; the
  parameter is not removed and no directive is attached.
\<close>

theorem unnamed_parameter_panics:
  "NumFields (Params (BenchmarkMe\<lparr>Params := [harnessParam\<lparr>Names := []\<rparr>]\<rparr>)) = 1
   \<and> rewriteDecl (BenchmarkMe\<lparr>Params := [harnessParam\<lparr>Names := []\<rparr>]\<rparr>)
     = Panic ''index out of range''
   \<and> main (exampleEnv ''BenchmarkMe''
        [FuncDecl (BenchmarkMe\<lparr>Params := [harnessParam\<lparr>Names := []\<rparr>]\<rparr>)])
     = (Panic ''index out of range'',
        [EvMkdirTemp ''/tmp/go-bb-1'', EvMkdir ''/tmp/go-bb-1/bborig'',
         EvCreate ''/tmp/go-bb-1/bborig/example_test.go'',
         EvCopy ''/work/example/example_test.go'' ''/tmp/go-bb-1/bborig/example_test.go'',
         EvRemove ''/tmp/go-bb-1''])"
  by (simp add: main_defs exampleEnv_def BenchmarkMe_def harnessParam_def)

text \<open>
  C5. When the selection does not find exactly one match, the run ends in a fatal error,
  for no match and for more than one, before any effect on the file system.
\<close>

theorem selection_rejects:
  assumes "Getwd e = Inr cwd" and "pathFlag e \<noteq> []" and "nameFlag e \<noteq> []"
    and "MustCompile e (''.*'' @ nameFlag e @ ''.*'') = Some re"
    and "Import e (pathFlag e) cwd = Inr pkg"
    and "length (findBenchmarkFuncs e pkg re) \<noteq> 1"
  shows "main e = (Die (if findBenchmarkFuncs e pkg re = [] then NoMatch (pathFlag e)
                        else Ambiguous (pathFlag e) (length (findBenchmarkFuncs e pkg re))), [])"
proof (cases "findBenchmarkFuncs e pkg re")
  case Nil
  then show ?thesis using assms by (simp add: main_def)
next
  case (Cons loc rest)
  then have "rest \<noteq> []" using assms(6) by auto
  then show ?thesis using assms Cons by (simp add: main_def)
qed

lemma copyEntries_setup:
  "copyEntries e a b xs lg = (r, lg') \<Longrightarrow> \<forall>ev \<in> set lg. setupEvent ev
   \<Longrightarrow> \<forall>ev \<in> set lg'. setupEvent ev"
proof (induction xs arbitrary: lg)
  case Nil
  then show ?case by simp
next
  case (Cons x xs)
  show ?case
  proof (cases "IsDir x \<or> \<not> HasSuffix (EntryName x) ''.go''")
    case True
    then show ?thesis using Cons by simp
  next
    case False
    obtain r1 lg1 where c: "copyFile e (pathJoin e a (EntryName x)) (pathJoin e b (EntryName x)) lg = (r1, lg1)"
      by (cases "copyFile e (pathJoin e a (EntryName x)) (pathJoin e b (EntryName x)) lg") auto
    have s1: "\<forall>ev \<in> set lg1. setupEvent ev"
      using c Cons.prems(2) by (auto simp: copyFile_def split: option.splits)
    show ?thesis
    proof (cases r1)
      case None
      then show ?thesis using Cons.IH[of lg1] Cons.prems(1) False c s1 by simp
    next
      case (Some err)
      then show ?thesis using Cons.prems(1) False c s1 by auto
    qed
  qed
qed

lemma copyModuleToTmp_setup:
  "copyModuleToTmp e a b lg = (r, lg') \<Longrightarrow> \<forall>ev \<in> set lg. setupEvent ev
   \<Longrightarrow> \<forall>ev \<in> set lg'. setupEvent ev"
  by (auto simp: copyModuleToTmp_def split: sum.splits dest: copyEntries_setup)

lemma rewrite_shape_log:
  "rewriteBenchFuncInPlace e pkgDir loc lg = (Die (BadShape nm n), lg') \<Longrightarrow> lg' = lg"
  by (auto simp: rewriteBenchFuncInPlace_def Let_def
      split: sum.splits option.splits result.splits formatted.splits)

lemma main_shape_setup:
  "main e = (Die (BadShape nm n), lg) \<Longrightarrow> \<forall>ev \<in> set lg. setupEvent ev"
proof -
  assume m: "main e = (Die (BadShape nm n), lg)"
  then obtain cwd bp pkg loc where b: "mainBuild e cwd bp pkg loc = (Die (BadShape nm n), lg)"
    by (auto simp: main_def Let_def split: sum.splits option.splits if_splits list.splits)
  then obtain tmpDir where t: "MkdirTemp e = Inr tmpDir"
    by (auto simp: mainBuild_def split: sum.splits)
  let ?bb = "pathJoin e tmpDir ''bborig''"
  have mk: "Mkdir e ?bb = None"
    using b t by (auto simp: mainBuild_def Let_def split: option.splits)
  obtain r1 lg1 where c: "copyModuleToTmp e (Dir pkg) ?bb [EvMkdirTemp tmpDir, EvMkdir ?bb] = (r1, lg1)"
    by (cases "copyModuleToTmp e (Dir pkg) ?bb [EvMkdirTemp tmpDir, EvMkdir ?bb]") auto
  have s1: "\<forall>ev \<in> set lg1. setupEvent ev"
    using copyModuleToTmp_setup[OF c] by simp
  have r1: "r1 = None" using b t mk c by (auto simp: mainBuild_def Let_def split: option.splits)
  obtain mp where rel: "filepathRel e cwd ?bb = Inr mp"
    using b t mk c r1 by (auto simp: mainBuild_def Let_def split: sum.splits)
  obtain r2 lg2 where rw: "rewriteBenchFuncInPlace e mp loc lg1 = (r2, lg2)"
    by (cases "rewriteBenchFuncInPlace e mp loc lg1") auto
  have "r2 = Die (BadShape nm n) \<and> lg2 = lg"
    using b t mk c r1 rel rw
    by (auto simp: mainBuild_def Let_def renderMainToFile_def runGo_def
        split: result.splits option.splits prod.splits)
  then have "lg = lg1" using rw rewrite_shape_log by blast
  then show ?thesis using s1 by simp
qed

text \<open>
  C6. A declaration whose parameter count is not one makes
  \<^verbatim>\<open>rewriteBenchFuncInPlace\<close> end the run with a fatal error, without any effect of its
  own and before the declaration is edited; and a run that ends with this error has only
  set up the scratch workspace, by creating its directories and copying the sources into
  it: no file has been rewritten or renamed.
\<close>

theorem shape_error_rejects:
  "(ParseFile e (pathJoin e pkgDir (locFile loc)) = Inr decls
      \<longrightarrow> findDecl (locName loc) decls = Some d
      \<longrightarrow> NumFields (Params d) \<noteq> 1
      \<longrightarrow> rewriteBenchFuncInPlace e pkgDir loc lg
            = (Die (BadShape (FuncName d) (NumFields (Params d))), lg))
   \<and> (main e = (Die (BadShape nm n), lg') \<longrightarrow> (\<forall>ev \<in> set lg'. setupEvent ev))"
  using main_shape_setup[of e nm n lg']
  by (simp add: rewriteBenchFuncInPlace_def Let_def rewriteDecl_def)

theorem selection_rejects_witness:
  "length (findBenchmarkFuncs
       (exampleEnv ''Bench'' [FuncDecl BenchmarkMe, FuncDecl (BenchmarkMe\<lparr>FuncName := ''BenchmarkMeToo''\<rparr>)])
       \<lparr>Dir = ''/work/example'', TestGoFiles = [''example_test.go''], XTestGoFiles = []\<rparr>
       (contains ''Bench'')) \<noteq> 1
   \<and> main (exampleEnv ''Bench'' [FuncDecl BenchmarkMe, FuncDecl (BenchmarkMe\<lparr>FuncName := ''BenchmarkMeToo''\<rparr>)])
     = (Die (Ambiguous ''./example'' 2), [])"
  using selection_rejects [of
      "exampleEnv ''Bench'' [FuncDecl BenchmarkMe, FuncDecl (BenchmarkMe\<lparr>FuncName := ''BenchmarkMeToo''\<rparr>)]"
      "''/work''" "contains ''Bench''"
      "\<lparr>Dir = ''/work/example'', TestGoFiles = [''example_test.go''], XTestGoFiles = []\<rparr>"]
  by (simp add: exampleEnv_def BenchmarkMe_def findBenchmarkFuncs_def HasPrefix_def)

theorem shape_error_rejects_witness:
  "main (exampleEnv ''Me'' [FuncDecl (BenchmarkMe\<lparr>Params := []\<rparr>)])
     = (Die (BadShape ''BenchmarkMe'' 0),
        [EvMkdirTemp ''/tmp/go-bb-1'', EvMkdir ''/tmp/go-bb-1/bborig'',
         EvCreate ''/tmp/go-bb-1/bborig/example_test.go'',
         EvCopy ''/work/example/example_test.go'' ''/tmp/go-bb-1/bborig/example_test.go''])
   \<and> list_all setupEvent (snd (main (exampleEnv ''Me'' [FuncDecl (BenchmarkMe\<lparr>Params := []\<rparr>)])))
   \<and> rewriteBenchFuncInPlace (exampleEnv ''Me'' [FuncDecl (BenchmarkMe\<lparr>Params := []\<rparr>)])
        ''bborig'' \<lparr>locFile = ''example_test.go'', locName = ''BenchmarkMe''\<rparr> []
      = (Die (BadShape ''BenchmarkMe'' 0), [])"
proof -
  let ?e = "exampleEnv ''Me'' [FuncDecl (BenchmarkMe\<lparr>Params := []\<rparr>)]"
  have m: "main ?e = (Die (BadShape ''BenchmarkMe'' 0),
        [EvMkdirTemp ''/tmp/go-bb-1'', EvMkdir ''/tmp/go-bb-1/bborig'',
         EvCreate ''/tmp/go-bb-1/bborig/example_test.go'',
         EvCopy ''/work/example/example_test.go'' ''/tmp/go-bb-1/bborig/example_test.go''])"
    by (simp add: main_defs exampleEnv_def BenchmarkMe_def)
  have p: "ParseFile ?e (pathJoin ?e ''bborig'' (locFile \<lparr>locFile = ''example_test.go'', locName = ''BenchmarkMe''\<rparr>))
           = Inr [FuncDecl (BenchmarkMe\<lparr>Params := []\<rparr>)]"
    by (simp add: exampleEnv_def)
  show ?thesis
    using m p shape_error_rejects [of ?e "''bborig''"
        "\<lparr>locFile = ''example_test.go'', locName = ''BenchmarkMe''\<rparr>"
        "[FuncDecl (BenchmarkMe\<lparr>Params := []\<rparr>)]" "BenchmarkMe\<lparr>Params := []\<rparr>" "[]"
        "''BenchmarkMe''" 0 "snd (main ?e)"]
    by (simp add: BenchmarkMe_def list_all_iff)
qed

text \<open>
  C9. The new name replaces the first \<^verbatim>\<open>_test.go\<close> of the old name, which need not be
  its suffix: \<^verbatim>\<open>a_test.go_test.go\<close> is renamed to \<^verbatim>\<open>a_bborig.go_test.go\<close>, which still
  carries the suffix of a test file.
\<close>

theorem rename_keeps_test_suffix:
  "renameTestFiles
     ((exampleEnv ''Me'' [])\<lparr>ReadDir := (\<lambda>p. Inr [\<lparr>EntryName = ''a_test.go_test.go'', IsDir = False\<rparr>])\<rparr>)
     ''bborig'' []
   = (None, [EvRename ''bborig/a_test.go_test.go'' ''bborig/a_bborig.go_test.go''])
   \<and> HasSuffix ''a_bborig.go_test.go'' ''_test.go''"
  by (simp add: main_defs exampleEnv_def)

lemma matchingFuncs_iff:
  "loc \<in> set (matchingFuncs re fl ds)
   \<longleftrightarrow> locFile loc = fl \<and> (\<exists>fd. FuncDecl fd \<in> set ds \<and> FuncName fd = locName loc
          \<and> HasPrefix (locName loc) ''Benchmark'' \<and> re (locName loc))"
  by (induction re fl ds rule: matchingFuncs.induct) auto

lemma findInFiles_iff:
  "loc \<in> set (findInFiles e pkg re fls)
   \<longleftrightarrow> locFile loc \<in> set fls
       \<and> (\<exists>decls fd. ParseFile e (pathJoin e (Dir pkg) (locFile loc)) = Inr decls
            \<and> FuncDecl fd \<in> set decls \<and> FuncName fd = locName loc
            \<and> HasPrefix (locName loc) ''Benchmark'' \<and> re (locName loc))"
  by (induction fls) (auto simp: matchingFuncs_iff split: sum.splits)

text \<open>
  In the example file the pattern \<^verbatim>\<open>e\<close> matches both names; only the one with the
  prefix \<^verbatim>\<open>Benchmark\<close> is selected.
\<close>

lemma example_selection:
  "findBenchmarkFuncs (exampleEnv ''e'' [FuncDecl BenchmarkMe, FuncDecl TestSomething])
     \<lparr>Dir = ''/work/example'', TestGoFiles = [''example_test.go''], XTestGoFiles = []\<rparr>
     (contains ''e'')
   = [\<lparr>locFile = ''example_test.go'', locName = ''BenchmarkMe''\<rparr>]"
  by (simp add: findBenchmarkFuncs_def exampleEnv_def BenchmarkMe_def TestSomething_def
      HasPrefix_def)

text \<open>
  C10. A location is selected exactly when its file is one of the package's test files,
  the file parses, and it declares a function of that name whose name starts with
  \<^verbatim>\<open>Benchmark\<close> and is matched by the expression; and the expression of a run is compiled
  from the pattern wrapped in \<^verbatim>\<open>.*\<close> on both sides.
\<close>

theorem selection_matches:
  "(loc \<in> set (findBenchmarkFuncs e pkg re)
     \<longleftrightarrow> locFile loc \<in> set (TestGoFiles pkg @ XTestGoFiles pkg)
         \<and> (\<exists>decls fd. ParseFile e (pathJoin e (Dir pkg) (locFile loc)) = Inr decls
              \<and> FuncDecl fd \<in> set decls \<and> FuncName fd = locName loc
              \<and> HasPrefix (locName loc) ''Benchmark'' \<and> re (locName loc)))
   \<and> (Getwd e = Inr cwd \<longrightarrow> pathFlag e \<noteq> [] \<longrightarrow> nameFlag e \<noteq> []
        \<longrightarrow> MustCompile e (''.*'' @ nameFlag e @ ''.*'') = Some re
        \<longrightarrow> Import e (pathFlag e) cwd = Inr pkg
        \<longrightarrow> findBenchmarkFuncs e pkg re = [loc]
        \<longrightarrow> (\<exists>binaryPath. main e = mainBuild e cwd binaryPath pkg loc))"
proof (intro conjI impI)
  show "loc \<in> set (findBenchmarkFuncs e pkg re)
     \<longleftrightarrow> locFile loc \<in> set (TestGoFiles pkg @ XTestGoFiles pkg)
         \<and> (\<exists>decls fd. ParseFile e (pathJoin e (Dir pkg) (locFile loc)) = Inr decls
              \<and> FuncDecl fd \<in> set decls \<and> FuncName fd = locName loc
              \<and> HasPrefix (locName loc) ''Benchmark'' \<and> re (locName loc))"
    by (simp only: findBenchmarkFuncs_def findInFiles_iff)
next
  assume "Getwd e = Inr cwd" "pathFlag e \<noteq> []" "nameFlag e \<noteq> []"
    "MustCompile e (''.*'' @ nameFlag e @ ''.*'') = Some re"
    "Import e (pathFlag e) cwd = Inr pkg" "findBenchmarkFuncs e pkg re = [loc]"
  then show "\<exists>binaryPath. main e = mainBuild e cwd binaryPath pkg loc"
    by (fastforce simp: main_def Let_def)
qed

theorem selection_matches_witness:
  "\<lparr>locFile = ''example_test.go'', locName = ''BenchmarkMeToo''\<rparr>
     \<in> set (findBenchmarkFuncs
         (exampleEnv ''BenchmarkMe''
            [FuncDecl BenchmarkMe, FuncDecl (BenchmarkMe\<lparr>FuncName := ''BenchmarkMeToo''\<rparr>)])
         \<lparr>Dir = ''/work/example'', TestGoFiles = [''example_test.go''], XTestGoFiles = []\<rparr>
         (contains ''BenchmarkMe''))
   \<and> MustCompile (exampleEnv ''BenchmarkMe''
            [FuncDecl BenchmarkMe, FuncDecl (BenchmarkMe\<lparr>FuncName := ''BenchmarkMeToo''\<rparr>)])
         (''.*'' @ ''BenchmarkMe'' @ ''.*'') = Some (contains ''BenchmarkMe'')
   \<and> main (exampleEnv ''BenchmarkMe'' [FuncDecl BenchmarkMe])
     = mainBuild (exampleEnv ''BenchmarkMe'' [FuncDecl BenchmarkMe]) ''/work''
         ''/work/benchmark.binary''
         \<lparr>Dir = ''/work/example'', TestGoFiles = [''example_test.go''], XTestGoFiles = []\<rparr>
         \<lparr>locFile = ''example_test.go'', locName = ''BenchmarkMe''\<rparr>"
proof -
  let ?e = "exampleEnv ''BenchmarkMe''
            [FuncDecl BenchmarkMe, FuncDecl (BenchmarkMe\<lparr>FuncName := ''BenchmarkMeToo''\<rparr>)]"
  let ?pkg = "\<lparr>Dir = ''/work/example'', TestGoFiles = [''example_test.go''], XTestGoFiles = []\<rparr>"
  let ?loc = "\<lparr>locFile = ''example_test.go'', locName = ''BenchmarkMeToo''\<rparr>"
  have p: "ParseFile ?e (pathJoin ?e (Dir ?pkg) (locFile ?loc))
           = Inr [FuncDecl BenchmarkMe, FuncDecl (BenchmarkMe\<lparr>FuncName := ''BenchmarkMeToo''\<rparr>)]"
    by (simp add: exampleEnv_def)
  have q: "FuncDecl (BenchmarkMe\<lparr>FuncName := ''BenchmarkMeToo''\<rparr>)
             \<in> set [FuncDecl BenchmarkMe, FuncDecl (BenchmarkMe\<lparr>FuncName := ''BenchmarkMeToo''\<rparr>)]
           \<and> FuncName (BenchmarkMe\<lparr>FuncName := ''BenchmarkMeToo''\<rparr>) = locName ?loc
           \<and> HasPrefix (locName ?loc) ''Benchmark'' \<and> contains ''BenchmarkMe'' (locName ?loc)"
    by (simp add: HasPrefix_def)
  have r: "locFile ?loc \<in> set (TestGoFiles ?pkg @ XTestGoFiles ?pkg)" by simp
  have a: "?loc \<in> set (findBenchmarkFuncs ?e ?pkg (contains ''BenchmarkMe''))"
    using selection_matches [of ?loc ?e ?pkg "contains ''BenchmarkMe''" "''/work''"] p q r
    by blast
  have b: "MustCompile ?e (''.*'' @ ''BenchmarkMe'' @ ''.*'') = Some (contains ''BenchmarkMe'')"
    by (simp add: exampleEnv_def)
  have c: "main (exampleEnv ''BenchmarkMe'' [FuncDecl BenchmarkMe])
     = mainBuild (exampleEnv ''BenchmarkMe'' [FuncDecl BenchmarkMe]) ''/work''
         ''/work/benchmark.binary'' ?pkg
         \<lparr>locFile = ''example_test.go'', locName = ''BenchmarkMe''\<rparr>"
    by (simp add: main_def findBenchmarkFuncs_def exampleEnv_def BenchmarkMe_def HasPrefix_def)
  show ?thesis using a b c by simp
qed

end
